theory Spec2Isabelle
  imports Main "HOL-Library.Word"
begin

section \<open>The registry listener of forta-core-go\<close>

text \<open>
  A shallow embedding of \<^verbatim>\<open>registry/listener.go\<close>. Go's \<^verbatim>\<open>*big.Int\<close> is \<open>int\<close>,
  \<^verbatim>\<open>int64\<close> is \<open>64 word\<close> read with \<open>sint\<close>, an \<^verbatim>\<open>error\<close> result is a value of
  \<open>outcome\<close>, and every call to an external collaborator (registry client, log feed,
  handler sink, logger) is appended to a trace of calls that the functions pass along.
\<close>

subsection \<open>Errors\<close>

datatype error = Error string

subsection \<open>Logs, blocks and decoded events\<close>

text \<open>
  A \<^verbatim>\<open>common.Address\<close> is kept as the string its \<^verbatim>\<open>Hex\<close> method returns, and a
  \<^verbatim>\<open>common.Hash\<close> likewise, so \<^verbatim>\<open>Hex\<close> is the identity on them.
\<close>

type_synonym address = string

definition Hex :: "address \<Rightarrow> string" where
  "Hex a = a"

text \<open>
  Modelled from the spec: \<^verbatim>\<open>utils.ZeroAddress\<close> is not among the sources; the spec
  calls it the zero address. It is also the \<^verbatim>\<open>Hex\<close> of the zero value of
  \<^verbatim>\<open>common.Address\<close>.
\<close>

definition ZeroAddress :: string where
  "ZeroAddress = ''0x0000000000000000000000000000000000000000''"

text \<open>\<^verbatim>\<open>types.Log\<close> of go-ethereum.\<close>

record Log =
  Address :: address
  Topics :: "string list"
  Data :: "8 word list"
  BlockNumber :: "64 word"
  TxHash :: string
  TxIndex :: nat
  BlockHash :: string
  Index :: nat
  Removed :: bool

text \<open>\<^verbatim>\<open>domain.Block\<close>: the fields the spec names (the others are never read here).\<close>

record Block =
  Number :: string
  Hash :: string
  ParentHash :: string
  Timestamp :: string

text \<open>
  Modelled from the spec: the event structs of the generated contract bindings are not
  among the sources. An event whose fields the listener reads is a record of those
  fields (the enabled flag, the sender of a transfer, the subject type, subject id,
  account and value of a stake event, the entries of a batch transfer); an event that
  the listener only hands on to a message constructor is kept as its decoded arguments.
\<close>

datatype decoded = Decoded "int list"

record ScannerRegistryScannerUpdated =
  ScannerId :: int

record ScannerRegistryScannerEnabled =
  ScannerId :: int
  Enabled :: bool

record ScannerPoolRegistryScannerUpdated =
  ScannerId :: int

record ScannerPoolRegistryTransfer =
  From :: address
  To :: address
  TokenId :: int

record ScannerPoolRegistryScannerPoolRegistered =
  ScannerPoolId :: int

record AgentRegistryAgentUpdated =
  AgentId :: int

record AgentRegistryAgentEnabled =
  AgentId :: int
  Enabled :: bool

record FortaStakingStakeDeposited =
  SubjectType :: "8 word"
  Subject :: int
  Account :: address
  Amount :: int

record FortaStakingWithdrawalInitiated =
  SubjectType :: "8 word"
  Subject :: int

record FortaStakingSlashed =
  SubjectType :: "8 word"
  Subject :: int
  Value :: int

record FortaStakingTransferSingle =
  Operator :: address
  From :: address
  To :: address
  Id :: int
  Value :: int

record FortaStakingTransferBatch =
  Operator :: address
  From :: address
  To :: address
  Ids :: "int list"
  Values :: "int list"

text \<open>What \<^verbatim>\<open>GetAgent\<close> returns, as far as the listener reads it.\<close>

record Agent =
  Enabled :: bool

subsection \<open>Domain messages\<close>

text \<open>
  The message constructors of \<^verbatim>\<open>domain/registry\<close> are not among the sources. A
  message is the constructor's name with the arguments the listener passes to it; a nil
  \<^verbatim>\<open>*big.Int\<close> argument is \<open>None\<close>.
\<close>

datatype message =
    NewScannerSaveMessage ScannerRegistryScannerUpdated bool Block
  | NewScannerMessage ScannerRegistryScannerEnabled Block
  | NewScannerStakeThresholdMessage decoded Log Block
  | NewScannerSaveMessageFromPool ScannerPoolRegistryScannerUpdated bool Block
  | NewScannerManagedStakeThresholdMessage decoded Log Block
  | NewScannerPoolMessageFromTransfer ScannerPoolRegistryTransfer Block
  | NewScannerPoolMessageFromRegistration ScannerPoolRegistryScannerPoolRegistered address Block
  | NewScannerPoolMessageFromEnablement decoded Block
  | NewScannerNodeVersionUpdated decoded Block
  | NewAgentSaveMessage AgentRegistryAgentUpdated bool Block
  | NewAgentMessage AgentRegistryAgentEnabled Block
  | NewAgentStakeThresholdMessage decoded Log Block
  | TransferSharesMessage Log address address address int int Block
  | NewScannerStakeMessage Log string address string "int option" Block
  | NewAgentStakeMessage Log string address string "int option" Block
  | NewScannerPoolStakeMessage Log string address string "int option" Block
  | NewScannerPoolAllocationMessage Log Block decoded
  | NewDispatchMessage decoded Block
  | NewAlreadyLinkedDispatchMessage decoded Block
  | NewUpgradeMessage decoded Log Block

text \<open>
  Modelled from the spec: \<^verbatim>\<open>registry.TransferSharesMessageFromSingle\<close> and
  \<^verbatim>\<open>registry.TransferSharesMessagesFromBatch\<close> are not among the sources. The spec
  says that share transfers are converted directly into one (single) or many (batch)
  share-transfer messages, one message per transferred item.
\<close>

definition TransferSharesMessageFromSingle ::
    "Log \<Rightarrow> FortaStakingTransferSingle \<Rightarrow> Block \<Rightarrow> error + message" where
  "TransferSharesMessageFromSingle le evt blk =
     Inr (TransferSharesMessage le (FortaStakingTransferSingle.Operator evt)
            (FortaStakingTransferSingle.From evt) (FortaStakingTransferSingle.To evt)
            (Id evt) (FortaStakingTransferSingle.Value evt) blk)"

definition TransferSharesMessagesFromBatch ::
    "Log \<Rightarrow> FortaStakingTransferBatch \<Rightarrow> Block \<Rightarrow> error + message list" where
  "TransferSharesMessagesFromBatch le evt blk =
     Inr (map (\<lambda>(i, v). TransferSharesMessage le (FortaStakingTransferBatch.Operator evt)
                 (FortaStakingTransferBatch.From evt) (FortaStakingTransferBatch.To evt) i v blk)
            (zip (Ids evt) (Values evt)))"

subsection \<open>Calls to the collaborators\<close>

text \<open>
  Every call that leaves the listener is recorded, in order. What a collaborator
  answers may depend on all the calls made before, so each of its methods takes the
  trace so far.
\<close>

datatype call =
    RefreshContractsCall
  | IsEnabledScannerCall string
  | GetAgentCall string
  | GetScannerPoolOwnerCall int
  | AddAddressCall string
  | HandlerCall message
  | LoggerDebug string
  | LoggerWarn "8 word" string

type_synonym trace = "call list"

text \<open>
  A Go function either returns or panics; a returned \<^verbatim>\<open>error\<close> is \<open>None\<close> for nil.
\<close>

datatype 'a result = Return 'a | Panic string

type_synonym outcome = "error option result \<times> trace"

subsection \<open>The registry contracts\<close>

text \<open>
  Modelled from the spec: the struct of role addresses is not among the sources. The
  spec has seven roles, some of them optional. The listener tests
  \<^verbatim>\<open>ScannerPoolRegistry\<close> and \<^verbatim>\<open>StakeAllocator\<close> against nil before every use, so
  these two are pointers (\<open>None\<close> is nil, an absent role); it calls \<^verbatim>\<open>Hex\<close> on the
  other five with no test, in the router and in the filter alike, so they are values.
\<close>

record RegistryContracts =
  AgentRegistry :: address
  ScannerRegistry :: address
  Dispatch :: address
  FortaStaking :: address
  ScannerNodeVersion :: address
  ScannerPoolRegistry :: "address option"
  StakeAllocator :: "address option"

text \<open>The filterers of the generated bindings: the parse methods the listener calls.\<close>

record ScannerRegistryFilterer =
  ParseScannerUpdated :: "Log \<Rightarrow> error + ScannerRegistryScannerUpdated"
  ParseScannerEnabled :: "Log \<Rightarrow> error + ScannerRegistryScannerEnabled"
  ParseStakeThresholdChanged :: "Log \<Rightarrow> error + decoded"

record ScannerPoolRegistryFilterer =
  ParseScannerUpdated :: "Log \<Rightarrow> error + ScannerPoolRegistryScannerUpdated"
  ParseManagedStakeThresholdChanged :: "Log \<Rightarrow> error + decoded"
  ParseTransfer :: "Log \<Rightarrow> error + ScannerPoolRegistryTransfer"
  ParseScannerPoolRegistered :: "Log \<Rightarrow> error + ScannerPoolRegistryScannerPoolRegistered"
  ParseEnabledScannersChanged :: "Log \<Rightarrow> error + decoded"

record ScannerNodeVersionFilterer =
  ParseScannerNodeVersionUpdated :: "Log \<Rightarrow> error + decoded"

record AgentRegistryFilterer =
  ParseAgentUpdated :: "Log \<Rightarrow> error + AgentRegistryAgentUpdated"
  ParseAgentEnabled :: "Log \<Rightarrow> error + AgentRegistryAgentEnabled"
  ParseStakeThresholdChanged :: "Log \<Rightarrow> error + decoded"

record FortaStakingFilterer =
  ParseStakeDeposited :: "Log \<Rightarrow> error + FortaStakingStakeDeposited"
  ParseWithdrawalInitiated :: "Log \<Rightarrow> error + FortaStakingWithdrawalInitiated"
  ParseSlashed :: "Log \<Rightarrow> error + FortaStakingSlashed"
  ParseTransferSingle :: "Log \<Rightarrow> error + FortaStakingTransferSingle"
  ParseTransferBatch :: "Log \<Rightarrow> error + FortaStakingTransferBatch"

record StakeAllocatorFilterer =
  ParseAllocatedStake :: "Log \<Rightarrow> error + decoded"

record DispatchFilterer =
  ParseLink :: "Log \<Rightarrow> error + decoded"
  ParseAlreadyLinked :: "Log \<Rightarrow> error + decoded"
  ParseUpgraded :: "Log \<Rightarrow> error + decoded"

text \<open>\<^verbatim>\<open>Contracts\<close>: what \<^verbatim>\<open>l.client.Contracts()\<close> returns.\<close>

record Contracts =
  Addresses :: RegistryContracts
  ScannerRegFil :: ScannerRegistryFilterer
  ScannerPoolRegFil :: ScannerPoolRegistryFilterer
  ScannerVersionFil :: ScannerNodeVersionFilterer
  AgentRegFil :: AgentRegistryFilterer
  FortaStakingFil :: FortaStakingFilterer
  StakeAllocatorFil :: StakeAllocatorFilterer
  DispatchFil :: DispatchFilterer

subsection \<open>The listener and what it is given\<close>

text \<open>The registry client (interface \<^verbatim>\<open>Client\<close>), as far as the listener calls it.\<close>

record Client =
  Contracts :: "trace \<Rightarrow> Contracts"
  RefreshContracts :: "trace \<Rightarrow> error option"
  IsEnabledScanner :: "trace \<Rightarrow> string \<Rightarrow> error + bool"
  GetAgent :: "trace \<Rightarrow> string \<Rightarrow> error + Agent"
  GetScannerPoolOwner :: "trace \<Rightarrow> int \<Rightarrow> error + address"

text \<open>
  The chain client, as far as the pager uses it: the result of the one call of
  \<^verbatim>\<open>l.eth.BlockNumber(context.Background())\<close> that each entry point makes.
\<close>

record eth_client =
  BlockNumber :: "error + int"

text \<open>A message sink: \<^verbatim>\<open>MessageHandler\<close>, and \<^verbatim>\<open>Publish\<close> of a \<^verbatim>\<open>MessageProxy\<close>.\<close>

type_synonym sink = "trace \<Rightarrow> message \<Rightarrow> error option"

record ContractFilter =
  AgentRegistry :: bool
  ScannerRegistry :: bool
  ScannerPoolRegistry :: bool
  DispatchRegistry :: bool
  FortaStaking :: bool
  ScannerVersion :: bool
  StakeAllocator :: bool

text \<open>
  \<^verbatim>\<open>ListenerConfig\<close>. \<^verbatim>\<open>Handlers\<close> stands for \<^verbatim>\<open>NewHandlerRegistry(cfg.Handlers).Handle\<close>,
  the direct sink built from the configured handlers; \<^verbatim>\<open>Proxy\<close> for the proxy's
  \<^verbatim>\<open>Publish\<close>.
\<close>

record ListenerConfig =
  Name :: string
  JsonRpcURL :: string
  ENSAddress :: string
  StartBlock :: "int option"
  EndBlock :: "int option"
  BlockOffset :: int
  Handlers :: sink
  ContractFilter :: "ContractFilter option"
  Topics :: "string list"
  Proxy :: "sink option"
  NoRefresh :: bool

text \<open>
  \<^verbatim>\<open>listener\<close>. \<^verbatim>\<open>ctx\<close> is \<^verbatim>\<open>l.ctx.Err()\<close>; the log feed \<^verbatim>\<open>logs\<close> appears through the
  \<open>AddAddressCall\<close>s of the trace.
\<close>

record listener =
  ctx :: "trace \<Rightarrow> error option"
  cfg :: ListenerConfig
  client :: Client
  eth :: eth_client
  handler :: sink

text \<open>\<^verbatim>\<open>feeds.LogFeedConfig\<close>, as \<^verbatim>\<open>NewListenerWithClients\<close> fills it.\<close>

record LogFeedConfig =
  Topics :: "string list list"
  StartBlock :: "int option"
  EndBlock :: "int option"
  Offset :: int

text \<open>
  Constants and helpers of other files of the repository, which the listener uses and
  which are not among the sources, taken as parameters: the topic constants of the
  generated bindings, the subject types and change types, the identifier encoders of
  \<^verbatim>\<open>utils\<close>, the helpers \<^verbatim>\<open>getTopic\<close>, \<^verbatim>\<open>equalsAddress\<close> and
  \<^verbatim>\<open>getAllContractAddrs\<close> of package \<^verbatim>\<open>registry\<close>, and the error, if any, with which
  \<^verbatim>\<open>feeds.NewLogFeed\<close> answers.
\<close>

record pkg =
  ScannerRegistry_ScannerUpdatedTopic :: string
  ScannerRegistry_ScannerEnabledTopic :: string
  ScannerRegistry_StakeThresholdChangedTopic :: string
  ScannerPoolRegistry_ScannerUpdatedTopic :: string
  ScannerPoolRegistry_ManagedStakeThresholdChangedTopic :: string
  ScannerPoolRegistry_TransferTopic :: string
  ScannerPoolRegistry_ScannerPoolRegisteredTopic :: string
  ScannerPoolRegistry_EnabledScannersChangedTopic :: string
  ScannerNodeVersion_ScannerNodeVersionUpdatedTopic :: string
  AgentRegistry_AgentUpdatedTopic :: string
  AgentRegistry_AgentEnabledTopic :: string
  AgentRegistry_StakeThresholdChangedTopic :: string
  FortaStaking_StakeDepositedTopic :: string
  FortaStaking_WithdrawalInitiatedTopic :: string
  FortaStaking_SlashedTopic :: string
  FortaStaking_TransferSingleTopic :: string
  FortaStaking_TransferBatchTopic :: string
  StakeAllocator_AllocatedStakeTopic :: string
  Dispatch_LinkTopic :: string
  Dispatch_AlreadyLinkedTopic :: string
  SubjectTypeScanner :: "8 word"
  SubjectTypeAgent :: "8 word"
  SubjectTypeScannerPool :: "8 word"
  ChangeTypeDeposit :: string
  ChangeTypeWithdrawal :: string
  ChangeTypeSlash :: string
  ScannerIDBigIntToHex :: "int \<Rightarrow> string"
  AgentBigIntToHex :: "int \<Rightarrow> string"
  getTopic :: "Log \<Rightarrow> string"
  equalsAddress :: "address \<Rightarrow> string \<Rightarrow> bool"
  getAllContractAddrs :: "RegistryContracts \<Rightarrow> string list"
  NewLogFeed :: "LogFeedConfig \<Rightarrow> error option"

text \<open>
  \<^verbatim>\<open>UpgradedTopic\<close>: every generated binding has the same value for it (``they are all
  the same''); this is the one of \<^verbatim>\<open>contract_stake_subject_gateway/topics.go\<close>.
\<close>

definition UpgradedTopic :: string where
  "UpgradedTopic = ''0xbc7cd75a20ee27fd9adebab32041f755214dbc6bffa90cc0225b39da2e5c2d3b''"

subsection \<open>Range pager: \<^verbatim>\<open>page\<close>, \<^verbatim>\<open>ProcessBlockRange\<close>, \<^verbatim>\<open>ProcessLastBlocks\<close>\<close>

type_synonym int64 = "64 word"

text \<open>\<^verbatim>\<open>type page struct { Start int64; End int64 }\<close>\<close>

record page =
  Start :: int64
  End :: int64

text \<open>
  \<^verbatim>\<open>(*big.Int).Int64()\<close> keeps the low 64 bits in two's complement;
  \<^verbatim>\<open>big.NewInt(x)\<close> reads an \<^verbatim>\<open>int64\<close> back as a signed number.
\<close>

definition Int64 :: "int \<Rightarrow> int64" where
  "Int64 x = word_of_int x"

definition NewInt :: "int64 \<Rightarrow> int" where
  "NewInt x = sint x"

text \<open>\<^verbatim>\<open>pageSize := big.NewInt(10000)\<close>\<close>

definition pageSize :: int where
  "pageSize = 10000"

text \<open>\<^verbatim>\<open>math.BigMin\<close> of go-ethereum: the smaller of two big integers.\<close>

definition BigMin :: "int \<Rightarrow> int \<Rightarrow> int" where
  "BigMin x y = (if x < y then x else y)"

text \<open>
  The producer goroutine of \<^verbatim>\<open>ProcessBlockRange\<close> (lines 458 to 472), with its loop
  variables \<^verbatim>\<open>start\<close> and \<^verbatim>\<open>end\<close>: the result is the sequence of pages it sends on the
  channel, in the order it sends them.
  \<^verbatim>\<open>
  for end.Cmp(endBlock) <= 0 {
      pages <- page{Start: start.Int64(), End: end.Int64()}
      if end.Cmp(endBlock) == 0 { return nil }
      start = big.NewInt(0).Add(end, big.NewInt(1))
      end = math.BigMin(big.NewInt(0).Add(start, pageSize), endBlock)
  }
  \<close>
\<close>

function producePages :: "int \<Rightarrow> int \<Rightarrow> int \<Rightarrow> page list" where
  "producePages start endP endBlock =
     (if endP \<le> endBlock then
        \<lparr>Start = Int64 start, End = Int64 endP\<rparr> #
          (if endP = endBlock then []
           else producePages (endP + 1) (BigMin ((endP + 1) + pageSize) endBlock) endBlock)
      else [])"
  by pat_completeness auto
termination
  by (relation "measure (\<lambda>(start, endP, endBlock). nat (endBlock - endP))")
     (auto simp: BigMin_def pageSize_def)

declare producePages.simps [simp del]

text \<open>
  \<^verbatim>\<open>ProcessBlockRange(startBlock, endBlock)\<close>, lines 411 to 475; \<open>None\<close> is a nil
  \<^verbatim>\<open>endBlock\<close>. The 25 workers that receive the pages run concurrently and are not
  part of this function: its value is the error of \<^verbatim>\<open>BlockNumber\<close>, or the pages
  the producer sends while the workers keep receiving.
\<close>

definition ProcessBlockRange :: "listener \<Rightarrow> int \<Rightarrow> int option \<Rightarrow> error + page list" where
  "ProcessBlockRange l startBlock endBlock =
     (case (case endBlock of None \<Rightarrow> eth_client.BlockNumber (eth l) | Some e \<Rightarrow> Inr e) of
        Inl err \<Rightarrow> Inl err
      | Inr endBlock' \<Rightarrow>
          Inr (producePages startBlock (BigMin (startBlock + pageSize) endBlock') endBlock'))"

text \<open>
  \<^verbatim>\<open>ProcessLastBlocks(blocksAgo int64)\<close>, lines 478 to 489. The subtraction
  \<^verbatim>\<open>bn.Int64() - blocksAgo\<close> is \<^verbatim>\<open>int64\<close> arithmetic.
\<close>

definition ProcessLastBlocks :: "listener \<Rightarrow> int64 \<Rightarrow> error + page list" where
  "ProcessLastBlocks l blocksAgo =
     (case eth_client.BlockNumber (eth l) of
        Inl err \<Rightarrow> Inl err
      | Inr bn \<Rightarrow>
          if Int64 bn = 0 then Inl (Error ''current block is unexpectedly 0'')
          else ProcessBlockRange l bn (Some (NewInt (Int64 bn - blocksAgo))))"

text \<open>
  The blocks a page asks for: the worker fetches
  \<^verbatim>\<open>GetLogsForRange(big.NewInt(p.Start), big.NewInt(p.End))\<close>, an inclusive range.
\<close>

definition pageBlocks :: "page \<Rightarrow> int list" where
  "pageBlocks p = [NewInt (Start p)..NewInt (End p)]"

subsection \<open>The event router: one function per contract role\<close>

text \<open>\<^verbatim>\<open>l.handler(logger, msg)\<close>: the message goes to the sink, whose error is returned.\<close>

definition deliver :: "listener \<Rightarrow> message \<Rightarrow> trace \<Rightarrow> outcome" where
  "deliver l m tr = (Return (handler l tr m), tr @ [HandlerCall m])"

text \<open>\<^verbatim>\<open>handleScannerRegistryEvent\<close>, lines 79 to 116.\<close>

definition handleScannerRegistryEvent ::
    "pkg \<Rightarrow> listener \<Rightarrow> Contracts \<Rightarrow> Log \<Rightarrow> Block \<Rightarrow> trace \<Rightarrow> outcome" where
  "handleScannerRegistryEvent k l contracts le blk tr =
     (if getTopic k le = ScannerRegistry_ScannerUpdatedTopic k then
        (case ScannerRegistryFilterer.ParseScannerUpdated (ScannerRegFil contracts) le of
           Inl err \<Rightarrow> (Return (Some err), tr)
         | Inr su \<Rightarrow>
             (let scannerID = ScannerIDBigIntToHex k (ScannerRegistryScannerUpdated.ScannerId su) in
              case IsEnabledScanner (client l) tr scannerID of
                Inl err \<Rightarrow> (Return (Some err), tr @ [IsEnabledScannerCall scannerID])
              | Inr enabled \<Rightarrow>
                  deliver l (NewScannerSaveMessage su enabled blk)
                    (tr @ [IsEnabledScannerCall scannerID])))
      else if getTopic k le = ScannerRegistry_ScannerEnabledTopic k then
        (case ParseScannerEnabled (ScannerRegFil contracts) le of
           Inl err \<Rightarrow> (Return (Some err), tr)
         | Inr se \<Rightarrow>
             (let scannerID = ScannerIDBigIntToHex k (ScannerRegistryScannerEnabled.ScannerId se) in
              case IsEnabledScanner (client l) tr scannerID of
                Inl err \<Rightarrow> (Return (Some err), tr @ [IsEnabledScannerCall scannerID])
              | Inr enabled \<Rightarrow>
                  deliver l
                    (NewScannerMessage
                       (se\<lparr>ScannerRegistryScannerEnabled.Enabled :=
                             enabled \<and> ScannerRegistryScannerEnabled.Enabled se\<rparr>) blk)
                    (tr @ [IsEnabledScannerCall scannerID])))
      else if getTopic k le = ScannerRegistry_StakeThresholdChangedTopic k then
        (case ScannerRegistryFilterer.ParseStakeThresholdChanged (ScannerRegFil contracts) le of
           Inl err \<Rightarrow> (Return (Some err), tr)
         | Inr evt \<Rightarrow> deliver l (NewScannerStakeThresholdMessage evt le blk) tr)
      else (Return None, tr))"

text \<open>\<^verbatim>\<open>handleScannerPoolRegistryEvent\<close>, lines 118 to 169.\<close>

definition handleScannerPoolRegistryEvent ::
    "pkg \<Rightarrow> listener \<Rightarrow> Contracts \<Rightarrow> Log \<Rightarrow> Block \<Rightarrow> trace \<Rightarrow> outcome" where
  "handleScannerPoolRegistryEvent k l contracts le blk tr =
     (if getTopic k le = ScannerPoolRegistry_ScannerUpdatedTopic k then
        (case ScannerPoolRegistryFilterer.ParseScannerUpdated (ScannerPoolRegFil contracts) le of
           Inl err \<Rightarrow> (Return (Some err), tr)
         | Inr su \<Rightarrow>
             (let scannerID =
                    ScannerIDBigIntToHex k (ScannerPoolRegistryScannerUpdated.ScannerId su) in
              case IsEnabledScanner (client l) tr scannerID of
                Inl err \<Rightarrow> (Return (Some err), tr @ [IsEnabledScannerCall scannerID])
              | Inr enabled \<Rightarrow>
                  deliver l (NewScannerSaveMessageFromPool su enabled blk)
                    (tr @ [IsEnabledScannerCall scannerID])))
      else if getTopic k le = ScannerPoolRegistry_ManagedStakeThresholdChangedTopic k then
        (case ParseManagedStakeThresholdChanged (ScannerPoolRegFil contracts) le of
           Inl err \<Rightarrow> (Return (Some err), tr)
         | Inr evt \<Rightarrow> deliver l (NewScannerManagedStakeThresholdMessage evt le blk) tr)
      else if getTopic k le = ScannerPoolRegistry_TransferTopic k then
        (case ParseTransfer (ScannerPoolRegFil contracts) le of
           Inl err \<Rightarrow> (Return (Some err), tr)
         | Inr evt \<Rightarrow>
             if Hex (ScannerPoolRegistryTransfer.From evt) = ZeroAddress then (Return None, tr)
             else deliver l (NewScannerPoolMessageFromTransfer evt blk) tr)
      else if getTopic k le = ScannerPoolRegistry_ScannerPoolRegisteredTopic k then
        (case ParseScannerPoolRegistered (ScannerPoolRegFil contracts) le of
           Inl err \<Rightarrow> (Return (Some err), tr)
         | Inr evt \<Rightarrow>
             (case GetScannerPoolOwner (client l) tr (ScannerPoolId evt) of
                Inl (Error msg) \<Rightarrow>
                  (Return (Some (Error (''failed to get scanner pool owner: '' @ msg))),
                   tr @ [GetScannerPoolOwnerCall (ScannerPoolId evt)])
              | Inr owner \<Rightarrow>
                  deliver l (NewScannerPoolMessageFromRegistration evt owner blk)
                    (tr @ [GetScannerPoolOwnerCall (ScannerPoolId evt)])))
      else if getTopic k le = ScannerPoolRegistry_EnabledScannersChangedTopic k then
        (case ParseEnabledScannersChanged (ScannerPoolRegFil contracts) le of
           Inl err \<Rightarrow> (Return (Some err), tr)
         | Inr evt \<Rightarrow> deliver l (NewScannerPoolMessageFromEnablement evt blk) tr)
      else (Return None, tr))"

text \<open>\<^verbatim>\<open>handleScannerVersionEvent\<close>, lines 171 to 181.\<close>

definition handleScannerVersionEvent ::
    "pkg \<Rightarrow> listener \<Rightarrow> Contracts \<Rightarrow> Log \<Rightarrow> Block \<Rightarrow> trace \<Rightarrow> outcome" where
  "handleScannerVersionEvent k l contracts le blk tr =
     (if getTopic k le = ScannerNodeVersion_ScannerNodeVersionUpdatedTopic k then
        (case ParseScannerNodeVersionUpdated (ScannerVersionFil contracts) le of
           Inl err \<Rightarrow> (Return (Some err), tr)
         | Inr su \<Rightarrow> deliver l (NewScannerNodeVersionUpdated su blk) tr)
      else (Return None, tr))"

text \<open>\<^verbatim>\<open>handleAgentRegistryEvent\<close>, lines 183 to 211.\<close>

definition handleAgentRegistryEvent ::
    "pkg \<Rightarrow> listener \<Rightarrow> Contracts \<Rightarrow> Log \<Rightarrow> Block \<Rightarrow> trace \<Rightarrow> outcome" where
  "handleAgentRegistryEvent k l contracts le blk tr =
     (if getTopic k le = AgentRegistry_AgentUpdatedTopic k then
        (case ParseAgentUpdated (AgentRegFil contracts) le of
           Inl err \<Rightarrow> (Return (Some err), tr)
         | Inr au \<Rightarrow>
             (let agentID = AgentBigIntToHex k (AgentRegistryAgentUpdated.AgentId au) in
              case GetAgent (client l) tr agentID of
                Inl err \<Rightarrow> (Return (Some err), tr @ [GetAgentCall agentID])
              | Inr agt \<Rightarrow>
                  deliver l (NewAgentSaveMessage au (Agent.Enabled agt) blk)
                    (tr @ [GetAgentCall agentID])))
      else if getTopic k le = AgentRegistry_AgentEnabledTopic k then
        (case ParseAgentEnabled (AgentRegFil contracts) le of
           Inl err \<Rightarrow> (Return (Some err), tr)
         | Inr ae \<Rightarrow> deliver l (NewAgentMessage ae blk) tr)
      else if getTopic k le = AgentRegistry_StakeThresholdChangedTopic k then
        (case AgentRegistryFilterer.ParseStakeThresholdChanged (AgentRegFil contracts) le of
           Inl err \<Rightarrow> (Return (Some err), tr)
         | Inr stc \<Rightarrow> deliver l (NewAgentStakeThresholdMessage stc le blk) tr)
      else (Return None, tr))"

text \<open>
  The loop of \<^verbatim>\<open>handleFortaStakingEvent\<close>, lines 271 to 276:
  \<^verbatim>\<open>
  for _, m := range ms {
      if err := l.handler(logger, m); err != nil { return err }
  }
  return nil
  \<close>
\<close>

fun deliverAll :: "listener \<Rightarrow> message list \<Rightarrow> trace \<Rightarrow> outcome" where
  "deliverAll l [] tr = (Return None, tr)"
| "deliverAll l (m # ms) tr =
     (case handler l tr m of
        Some err \<Rightarrow> (Return (Some err), tr @ [HandlerCall m])
      | None \<Rightarrow> deliverAll l ms (tr @ [HandlerCall m]))"

text \<open>
  The second switch of \<^verbatim>\<open>handleFortaStakingEvent\<close>, lines 283 to 300, over the variables
  \<^verbatim>\<open>subjectType\<close>, \<^verbatim>\<open>subjectID\<close>, \<^verbatim>\<open>changeType\<close>, \<^verbatim>\<open>value\<close> and \<^verbatim>\<open>acct\<close> that the first
  switch has set. \<^verbatim>\<open>subjectID.String()\<close> is the decimal rendering of the big integer.
\<close>

fun digitsOf :: "nat \<Rightarrow> string" where
  "digitsOf n =
     (if n < 10 then [''0123456789'' ! n]
      else digitsOf (n div 10) @ [''0123456789'' ! (n mod 10)])"

definition BigIntString :: "int \<Rightarrow> string" where
  "BigIntString x = (if x < 0 then CHR ''-'' # digitsOf (nat (- x)) else digitsOf (nat x))"

declare digitsOf.simps [simp del]

text \<open>
  The spec's side of the scanner pool identifier, a decimal string. These definitions
  follow the spec's words and not the code: the number a string of decimal digits
  stands for, read from the left with an optional leading minus sign, and what it is
  to be the decimal notation of an integer (a minus sign or none, then at least one
  digit, nothing but digits, and no leading zero except in \<open>''0''\<close> itself).
\<close>

definition spec_digit_value :: "char \<Rightarrow> nat" where
  "spec_digit_value c =
     (case map_of (zip ''0123456789'' [0, 1, 2, 3, 4, 5, 6, 7, 8, 9]) c of
        Some d \<Rightarrow> d | None \<Rightarrow> 0)"

definition spec_decimal_nat :: "string \<Rightarrow> nat" where
  "spec_decimal_nat ds = foldl (\<lambda>acc c. 10 * acc + spec_digit_value c) 0 ds"

definition spec_decimal_value :: "string \<Rightarrow> int" where
  "spec_decimal_value s =
     (case s of
        [] \<Rightarrow> 0
      | c # ds \<Rightarrow> if c = CHR ''-'' then - int (spec_decimal_nat ds)
                  else int (spec_decimal_nat (c # ds)))"

definition spec_is_decimal :: "string \<Rightarrow> bool" where
  "spec_is_decimal s =
     (let ds = (case s of [] \<Rightarrow> [] | c # r \<Rightarrow> if c = CHR ''-'' then r else s)
      in ds \<noteq> [] \<and> list_all (\<lambda>c. c \<in> set ''0123456789'') ds
         \<and> (hd ds \<noteq> CHR ''0'' \<or> (ds = ''0'' \<and> s = ''0'')))"

definition stakeBySubjectType ::
    "pkg \<Rightarrow> listener \<Rightarrow> Log \<Rightarrow> Block \<Rightarrow> 8 word \<Rightarrow> int \<Rightarrow> string \<Rightarrow> int option \<Rightarrow> address \<Rightarrow>
     trace \<Rightarrow> outcome" where
  "stakeBySubjectType k l le blk subjectType subjectID changeType val acct tr =
     (if subjectType = SubjectTypeScanner k then
        (let scannerID = ScannerIDBigIntToHex k subjectID in
         deliver l (NewScannerStakeMessage le changeType acct scannerID val blk) tr)
      else if subjectType = SubjectTypeAgent k then
        (let agentID = AgentBigIntToHex k subjectID in
         deliver l (NewAgentStakeMessage le changeType acct agentID val blk) tr)
      else if subjectType = SubjectTypeScannerPool k then
        (let poolID = BigIntString subjectID in
         deliver l (NewScannerPoolStakeMessage le changeType acct poolID val blk) tr)
      else (Return None, tr @ [LoggerWarn subjectType ''unhandled subject ID, ignoring'']))"

text \<open>
  \<^verbatim>\<open>handleFortaStakingEvent\<close>, lines 213 to 301. A variable the first switch leaves
  unset keeps its zero value: nil for \<^verbatim>\<open>value\<close>, the zero address for \<^verbatim>\<open>acct\<close>.
\<close>

definition handleFortaStakingEvent ::
    "pkg \<Rightarrow> listener \<Rightarrow> Contracts \<Rightarrow> Log \<Rightarrow> Block \<Rightarrow> trace \<Rightarrow> outcome" where
  "handleFortaStakingEvent k l contracts le blk tr =
     (if getTopic k le = FortaStaking_StakeDepositedTopic k then
        (case ParseStakeDeposited (FortaStakingFil contracts) le of
           Inl err \<Rightarrow> (Return (Some err), tr)
         | Inr evt \<Rightarrow>
             stakeBySubjectType k l le blk (FortaStakingStakeDeposited.SubjectType evt)
               (FortaStakingStakeDeposited.Subject evt) (ChangeTypeDeposit k)
               (Some (Amount evt)) (Account evt) tr)
      else if getTopic k le = FortaStaking_WithdrawalInitiatedTopic k then
        (case ParseWithdrawalInitiated (FortaStakingFil contracts) le of
           Inl err \<Rightarrow> (Return (Some err), tr)
         | Inr evt \<Rightarrow>
             stakeBySubjectType k l le blk (FortaStakingWithdrawalInitiated.SubjectType evt)
               (FortaStakingWithdrawalInitiated.Subject evt) (ChangeTypeWithdrawal k)
               None ZeroAddress tr)
      else if getTopic k le = FortaStaking_SlashedTopic k then
        (case ParseSlashed (FortaStakingFil contracts) le of
           Inl err \<Rightarrow> (Return (Some err), tr)
         | Inr evt \<Rightarrow>
             stakeBySubjectType k l le blk (FortaStakingSlashed.SubjectType evt)
               (FortaStakingSlashed.Subject evt) (ChangeTypeSlash k)
               (Some (FortaStakingSlashed.Value evt)) ZeroAddress tr)
      else if getTopic k le = FortaStaking_TransferSingleTopic k then
        (case ParseTransferSingle (FortaStakingFil contracts) le of
           Inl err \<Rightarrow> (Return (Some err), tr)
         | Inr evt \<Rightarrow>
             (case TransferSharesMessageFromSingle le evt blk of
                Inl err \<Rightarrow> (Return (Some err), tr)
              | Inr m \<Rightarrow> deliver l m tr))
      else if getTopic k le = FortaStaking_TransferBatchTopic k then
        (case ParseTransferBatch (FortaStakingFil contracts) le of
           Inl err \<Rightarrow> (Return (Some err), tr)
         | Inr evt \<Rightarrow>
             (case TransferSharesMessagesFromBatch le evt blk of
                Inl err \<Rightarrow> (Return (Some err), tr)
              | Inr ms \<Rightarrow> deliverAll l ms tr))
      else (Return None, tr @ [LoggerDebug ''unhandled topic, ignoring'']))"

text \<open>\<^verbatim>\<open>handleStakeAllocatorEvent\<close>, lines 303 to 313.\<close>

definition handleStakeAllocatorEvent ::
    "pkg \<Rightarrow> listener \<Rightarrow> Contracts \<Rightarrow> Log \<Rightarrow> Block \<Rightarrow> trace \<Rightarrow> outcome" where
  "handleStakeAllocatorEvent k l contracts le blk tr =
     (if getTopic k le = StakeAllocator_AllocatedStakeTopic k then
        (case ParseAllocatedStake (StakeAllocatorFil contracts) le of
           Inl err \<Rightarrow> (Return (Some err), tr)
         | Inr evt \<Rightarrow> deliver l (NewScannerPoolAllocationMessage le blk evt) tr)
      else (Return None, tr))"

text \<open>\<^verbatim>\<open>handleDispatchEvent\<close>, lines 315 to 332.\<close>

definition handleDispatchEvent ::
    "pkg \<Rightarrow> listener \<Rightarrow> Contracts \<Rightarrow> Log \<Rightarrow> Block \<Rightarrow> trace \<Rightarrow> outcome" where
  "handleDispatchEvent k l contracts le blk tr =
     (if getTopic k le = Dispatch_LinkTopic k then
        (case ParseLink (DispatchFil contracts) le of
           Inl err \<Rightarrow> (Return (Some err), tr)
         | Inr link \<Rightarrow> deliver l (NewDispatchMessage link blk) tr)
      else if getTopic k le = Dispatch_AlreadyLinkedTopic k then
        (case ParseAlreadyLinked (DispatchFil contracts) le of
           Inl err \<Rightarrow> (Return (Some err), tr)
         | Inr link \<Rightarrow> deliver l (NewAlreadyLinkedDispatchMessage link blk) tr)
      else (Return None, tr))"

subsection \<open>The subscribed-address filter\<close>

text \<open>
  \<^verbatim>\<open>p.Hex()\<close> through a pointer \<^verbatim>\<open>p\<close>: a nil pointer makes the Go runtime panic.
\<close>

definition nilDereference :: string where
  "nilDereference = ''invalid memory address or nil pointer dereference''"

definition HexPtr :: "address option \<Rightarrow> string result" where
  "HexPtr p = (case p of None \<Rightarrow> Panic nilDereference | Some a \<Rightarrow> Return (Hex a))"

text \<open>
  \<^verbatim>\<open>if flag && p != nil { addrs = append(addrs, p.Hex()) }\<close>, with Go's
  short-circuit \<^verbatim>\<open>&&\<close>.
\<close>

definition appendIfPresent :: "bool \<Rightarrow> address option \<Rightarrow> string list \<Rightarrow> string list result" where
  "appendIfPresent flag p addrs =
     (if flag \<and> p \<noteq> None then
        (case HexPtr p of Panic s \<Rightarrow> Panic s | Return h \<Rightarrow> Return (addrs @ [h]))
      else Return addrs)"

text \<open>Lines 533 to 563 of \<^verbatim>\<open>setLogFilterAddrs\<close>: the addresses to subscribe to.\<close>

definition filterAddrs :: "pkg \<Rightarrow> ContractFilter option \<Rightarrow> RegistryContracts \<Rightarrow> string list result" where
  "filterAddrs k filter' regContracts =
     (case filter' of
        Some f \<Rightarrow>
          (let addrs = [];
               addrs = (if ContractFilter.AgentRegistry f
                        then addrs @ [Hex (RegistryContracts.AgentRegistry regContracts)]
                        else addrs);
               addrs = (if ContractFilter.ScannerRegistry f
                        then addrs @ [Hex (RegistryContracts.ScannerRegistry regContracts)]
                        else addrs);
               addrs = (if ContractFilter.FortaStaking f
                        then addrs @ [Hex (RegistryContracts.FortaStaking regContracts)]
                        else addrs);
               addrs = (if DispatchRegistry f
                        then addrs @ [Hex (Dispatch regContracts)]
                        else addrs);
               addrs = (if ScannerVersion f
                        then addrs @ [Hex (ScannerNodeVersion regContracts)]
                        else addrs)
           in case appendIfPresent (ContractFilter.ScannerPoolRegistry f)
                     (RegistryContracts.ScannerPoolRegistry regContracts) addrs of
                Panic s \<Rightarrow> Panic s
              | Return addrs \<Rightarrow>
                  appendIfPresent (ContractFilter.StakeAllocator f)
                    (RegistryContracts.StakeAllocator regContracts) addrs)
      | None \<Rightarrow> Return (getAllContractAddrs k regContracts))"

text \<open>
  \<^verbatim>\<open>setLogFilterAddrs\<close>, lines 532 to 572: an empty list is a panic, otherwise every
  address goes to \<^verbatim>\<open>l.logs.AddAddress\<close>.
\<close>

definition setLogFilterAddrs :: "pkg \<Rightarrow> listener \<Rightarrow> trace \<Rightarrow> unit result \<times> trace" where
  "setLogFilterAddrs k l tr =
     (case filterAddrs k (ContractFilter (cfg l)) (Addresses (Contracts (client l) tr)) of
        Panic s \<Rightarrow> (Panic s, tr)
      | Return addrs \<Rightarrow>
          if length addrs = 0 then (Panic ''empty filter'', tr)
          else (Return (), tr @ map AddAddressCall addrs))"

subsection \<open>Upgrade events and routing by address\<close>

text \<open>\<^verbatim>\<open>handleUpgradeEvent\<close>, lines 334 to 353.\<close>

definition handleUpgradeEvent ::
    "pkg \<Rightarrow> listener \<Rightarrow> Contracts \<Rightarrow> Log \<Rightarrow> Block \<Rightarrow> trace \<Rightarrow> outcome" where
  "handleUpgradeEvent k l contracts le blk tr =
     (if getTopic k le \<noteq> UpgradedTopic then (Return None, tr)
      else
        (case RefreshContracts (client l) tr of
           Some err \<Rightarrow> (Return (Some err), tr @ [RefreshContractsCall])
         | None \<Rightarrow>
             (case setLogFilterAddrs k l (tr @ [RefreshContractsCall]) of
                (Panic s, tr') \<Rightarrow> (Panic s, tr')
              | (Return u, tr') \<Rightarrow>
                  (case ParseUpgraded (DispatchFil contracts) le of
                     Inl err \<Rightarrow> (Return (Some err), tr')
                   | Inr upgraded \<Rightarrow> deliver l (NewUpgradeMessage upgraded le blk) tr'))))"

text \<open>
  \<^verbatim>\<open>p != nil && equalsAddress(a, p.Hex())\<close> for a pointer \<^verbatim>\<open>p\<close>, with Go's
  short-circuit \<^verbatim>\<open>&&\<close>.
\<close>

definition equalsPresent :: "pkg \<Rightarrow> address \<Rightarrow> address option \<Rightarrow> bool result" where
  "equalsPresent k a p =
     (if p \<noteq> None then
        (case HexPtr p of Panic s \<Rightarrow> Panic s | Return h \<Rightarrow> Return (equalsAddress k a h))
      else Return False)"

text \<open>
  Lines 371 to 392 of \<^verbatim>\<open>handleLog\<close>: the log's address is compared with each role's
  address in turn, and the first role that matches interprets the log.
\<close>

definition routeByAddress ::
    "pkg \<Rightarrow> listener \<Rightarrow> Contracts \<Rightarrow> Log \<Rightarrow> Block \<Rightarrow> trace \<Rightarrow> outcome" where
  "routeByAddress k l contracts le blk tr =
     (if equalsAddress k (Address le) (Hex (RegistryContracts.ScannerRegistry (Addresses contracts)))
      then handleScannerRegistryEvent k l contracts le blk tr
      else if equalsAddress k (Address le) (Hex (ScannerNodeVersion (Addresses contracts)))
      then handleScannerVersionEvent k l contracts le blk tr
      else if equalsAddress k (Address le) (Hex (RegistryContracts.AgentRegistry (Addresses contracts)))
      then handleAgentRegistryEvent k l contracts le blk tr
      else if equalsAddress k (Address le) (Hex (Dispatch (Addresses contracts)))
      then handleDispatchEvent k l contracts le blk tr
      else if equalsAddress k (Address le) (Hex (RegistryContracts.FortaStaking (Addresses contracts)))
      then handleFortaStakingEvent k l contracts le blk tr
      else
        (case equalsPresent k (Address le)
                (RegistryContracts.ScannerPoolRegistry (Addresses contracts)) of
           Panic s \<Rightarrow> (Panic s, tr)
         | Return True \<Rightarrow> handleScannerPoolRegistryEvent k l contracts le blk tr
         | Return False \<Rightarrow>
             (case equalsPresent k (Address le)
                     (RegistryContracts.StakeAllocator (Addresses contracts)) of
                Panic s \<Rightarrow> (Panic s, tr)
              | Return True \<Rightarrow> handleStakeAllocatorEvent k l contracts le blk tr
              | Return False \<Rightarrow> (Return None, tr))))"

text \<open>
  \<^verbatim>\<open>handleLog\<close>, lines 355 to 393. \<^verbatim>\<open>contracts\<close> is read once, before the upgrade
  check, and what was read is passed to the upgrade handler and to the role handlers;
  \<^verbatim>\<open>setLogFilterAddrs\<close> reads the client's contracts anew. Calls of \<^verbatim>\<open>handleLog\<close> never
  overlap (the workers take a mutex around it, and the live feed calls it for one log
  at a time), so a sequence of logs is handled by passing the trace from one call to
  the next.
\<close>

definition handleLog :: "pkg \<Rightarrow> listener \<Rightarrow> Block \<Rightarrow> Log \<Rightarrow> trace \<Rightarrow> outcome" where
  "handleLog k l blk le tr =
     (case ctx l tr of
        Some err \<Rightarrow> (Return (Some err), tr)
      | None \<Rightarrow>
          (let contracts = Contracts (client l) tr in
           case handleUpgradeEvent k l contracts le blk tr of
             (Return None, tr') \<Rightarrow> routeByAddress k l contracts le blk tr'
           | (Return (Some err), tr') \<Rightarrow> (Return (Some err), tr')
           | (Panic s, tr') \<Rightarrow> (Panic s, tr')))"

subsection \<open>Construction\<close>

text \<open>
  \<^verbatim>\<open>NewListenerWithClients\<close>, lines 574 to 609: the listener and a nil error, or the
  error of the log feed, or the panic of \<^verbatim>\<open>setLogFilterAddrs\<close>.
\<close>

definition NewListenerWithClients ::
    "pkg \<Rightarrow> (trace \<Rightarrow> error option) \<Rightarrow> ListenerConfig \<Rightarrow> eth_client \<Rightarrow> Client \<Rightarrow> sink option \<Rightarrow>
     trace \<Rightarrow> (error + listener) result \<times> trace" where
  "NewListenerWithClients k c config ethClient regClient proxy tr =
     (let li = \<lparr>ctx = c, cfg = config, client = regClient, eth = ethClient,
                handler = (case proxy of Some publish \<Rightarrow> publish | None \<Rightarrow> Handlers config)\<rparr>;
          topics = (if length (ListenerConfig.Topics config) > 0
                    then [ListenerConfig.Topics config] else [])
      in case NewLogFeed k \<lparr>Topics = topics, StartBlock = ListenerConfig.StartBlock config,
                             EndBlock = ListenerConfig.EndBlock config,
                             Offset = BlockOffset config\<rparr> of
           Some err \<Rightarrow> (Return (Inl err), tr)
         | None \<Rightarrow>
             (case setLogFilterAddrs k li tr of
                (Panic s, tr') \<Rightarrow> (Panic s, tr')
              | (Return u, tr') \<Rightarrow> (Return (Inr li), tr')))"

subsection \<open>A concrete deployment\<close>

text \<open>
  One deployment with every role present, a client that answers every query, a sink
  that accepts every message and a context that is never cancelled. The topic
  constants stand in for the hashes of the generated bindings, which are pairwise
  different within each role and different from \<open>UpgradedTopic\<close>.
\<close>

definition exPkg :: pkg where
  "exPkg = \<lparr>
     ScannerRegistry_ScannerUpdatedTopic = ''scanner_registry.ScannerUpdated'',
     ScannerRegistry_ScannerEnabledTopic = ''scanner_registry.ScannerEnabled'',
     ScannerRegistry_StakeThresholdChangedTopic = ''scanner_registry.StakeThresholdChanged'',
     ScannerPoolRegistry_ScannerUpdatedTopic = ''scanner_pool_registry.ScannerUpdated'',
     ScannerPoolRegistry_ManagedStakeThresholdChangedTopic =
       ''scanner_pool_registry.ManagedStakeThresholdChanged'',
     ScannerPoolRegistry_TransferTopic = ''scanner_pool_registry.Transfer'',
     ScannerPoolRegistry_ScannerPoolRegisteredTopic = ''scanner_pool_registry.ScannerPoolRegistered'',
     ScannerPoolRegistry_EnabledScannersChangedTopic =
       ''scanner_pool_registry.EnabledScannersChanged'',
     ScannerNodeVersion_ScannerNodeVersionUpdatedTopic =
       ''scanner_node_version.ScannerNodeVersionUpdated'',
     AgentRegistry_AgentUpdatedTopic = ''agent_registry.AgentUpdated'',
     AgentRegistry_AgentEnabledTopic = ''agent_registry.AgentEnabled'',
     AgentRegistry_StakeThresholdChangedTopic = ''agent_registry.StakeThresholdChanged'',
     FortaStaking_StakeDepositedTopic = ''forta_staking.StakeDeposited'',
     FortaStaking_WithdrawalInitiatedTopic = ''forta_staking.WithdrawalInitiated'',
     FortaStaking_SlashedTopic = ''forta_staking.Slashed'',
     FortaStaking_TransferSingleTopic = ''forta_staking.TransferSingle'',
     FortaStaking_TransferBatchTopic = ''forta_staking.TransferBatch'',
     StakeAllocator_AllocatedStakeTopic = ''stake_allocator.AllocatedStake'',
     Dispatch_LinkTopic = ''dispatch.Link'',
     Dispatch_AlreadyLinkedTopic = ''dispatch.AlreadyLinked'',
     SubjectTypeScanner = 0,
     SubjectTypeAgent = 1,
     SubjectTypeScannerPool = 2,
     ChangeTypeDeposit = ''deposit'',
     ChangeTypeWithdrawal = ''withdrawal'',
     ChangeTypeSlash = ''slash'',
     ScannerIDBigIntToHex = (\<lambda>i. ''scanner-'' @ BigIntString i),
     AgentBigIntToHex = (\<lambda>i. ''agent-'' @ BigIntString i),
     getTopic = (\<lambda>le. case Log.Topics le of [] \<Rightarrow> [] | t # ts \<Rightarrow> t),
     equalsAddress = (\<lambda>a h. a = h),
     getAllContractAddrs =
       (\<lambda>rc. [RegistryContracts.AgentRegistry rc, RegistryContracts.ScannerRegistry rc,
               Dispatch rc, RegistryContracts.FortaStaking rc, ScannerNodeVersion rc]
             @ (case RegistryContracts.ScannerPoolRegistry rc of None \<Rightarrow> [] | Some a \<Rightarrow> [a])
             @ (case RegistryContracts.StakeAllocator rc of None \<Rightarrow> [] | Some a \<Rightarrow> [a])),
     NewLogFeed = (\<lambda>c. None)\<rparr>"

definition exAddresses :: RegistryContracts where
  "exAddresses = \<lparr>
     RegistryContracts.AgentRegistry = ''0xA1'', RegistryContracts.ScannerRegistry = ''0xA2'', Dispatch = ''0xA3'',
     RegistryContracts.FortaStaking = ''0xA4'', ScannerNodeVersion = ''0xA5'',
     RegistryContracts.ScannerPoolRegistry = Some ''0xA6'',
     RegistryContracts.StakeAllocator = Some ''0xA7''\<rparr>"

definition exTransfer :: "address \<Rightarrow> ScannerPoolRegistryTransfer" where
  "exTransfer a = \<lparr>ScannerPoolRegistryTransfer.From = a, ScannerPoolRegistryTransfer.To = ''0xB2'',
                   TokenId = 7\<rparr>"

definition exBatch :: FortaStakingTransferBatch where
  "exBatch = \<lparr>Operator = ''0xB0'', From = ''0xB1'', To = ''0xB2'',
               Ids = [11, 12, 13], Values = [100, 200, 300]\<rparr>"

text \<open>
  The example decoders read the event off the log's data bytes where an example needs
  to vary it: the first byte is the subject type, and empty data is a false flag or a
  zero sender.
\<close>

definition exContracts :: Contracts where
  "exContracts = \<lparr>
     Addresses = exAddresses,
     ScannerRegFil = \<lparr>
       ScannerRegistryFilterer.ParseScannerUpdated =
         (\<lambda>le. Inr \<lparr>ScannerRegistryScannerUpdated.ScannerId = 5\<rparr>),
       ParseScannerEnabled =
         (\<lambda>le. Inr \<lparr>ScannerRegistryScannerEnabled.ScannerId = 5,
                     ScannerRegistryScannerEnabled.Enabled = (Data le \<noteq> [])\<rparr>),
       ScannerRegistryFilterer.ParseStakeThresholdChanged = (\<lambda>le. Inr (Decoded []))\<rparr>,
     ScannerPoolRegFil = \<lparr>
       ParseScannerUpdated = (\<lambda>le. Inr \<lparr>ScannerId = 5\<rparr>),
       ParseManagedStakeThresholdChanged = (\<lambda>le. Inr (Decoded [])),
       ParseTransfer = (\<lambda>le. Inr (exTransfer (if Data le = [] then ZeroAddress else ''0xB1''))),
       ParseScannerPoolRegistered = (\<lambda>le. Inr \<lparr>ScannerPoolId = 7\<rparr>),
       ParseEnabledScannersChanged = (\<lambda>le. Inr (Decoded []))\<rparr>,
     ScannerVersionFil = \<lparr>ParseScannerNodeVersionUpdated = (\<lambda>le. Inr (Decoded []))\<rparr>,
     AgentRegFil = \<lparr>
       ParseAgentUpdated = (\<lambda>le. Inr \<lparr>AgentRegistryAgentUpdated.AgentId = 9\<rparr>),
       ParseAgentEnabled =
         (\<lambda>le. Inr \<lparr>AgentId = 9, AgentRegistryAgentEnabled.Enabled = (Data le \<noteq> [])\<rparr>),
       ParseStakeThresholdChanged = (\<lambda>le. Inr (Decoded []))\<rparr>,
     FortaStakingFil = \<lparr>
       ParseStakeDeposited =
         (\<lambda>le. Inr \<lparr>FortaStakingStakeDeposited.SubjectType =
                       (case Data le of [] \<Rightarrow> 0 | b # bs \<Rightarrow> b),
                     FortaStakingStakeDeposited.Subject = 7,
                     Account = ''0xB1'', Amount = 100\<rparr>),
       ParseWithdrawalInitiated =
         (\<lambda>le. Inr \<lparr>FortaStakingWithdrawalInitiated.SubjectType =
                       (case Data le of [] \<Rightarrow> 0 | b # bs \<Rightarrow> b),
                     FortaStakingWithdrawalInitiated.Subject = 7\<rparr>),
       ParseSlashed =
         (\<lambda>le. Inr \<lparr>SubjectType = (case Data le of [] \<Rightarrow> 0 | b # bs \<Rightarrow> b), Subject = 7,
                     FortaStakingSlashed.Value = 50\<rparr>),
       ParseTransferSingle =
         (\<lambda>le. Inr \<lparr>FortaStakingTransferSingle.Operator = ''0xB0'',
                     FortaStakingTransferSingle.From = ''0xB1'',
                     FortaStakingTransferSingle.To = ''0xB2'', Id = 11, Value = 100\<rparr>),
       ParseTransferBatch = (\<lambda>le. Inr exBatch)\<rparr>,
     StakeAllocatorFil = \<lparr>ParseAllocatedStake = (\<lambda>le. Inr (Decoded []))\<rparr>,
     DispatchFil = \<lparr>
       ParseLink = (\<lambda>le. Inr (Decoded [])),
       ParseAlreadyLinked = (\<lambda>le. Inr (Decoded [])),
       ParseUpgraded = (\<lambda>le. Inr (Decoded []))\<rparr>\<rparr>"

definition exClient :: Client where
  "exClient = \<lparr>
     Contracts = (\<lambda>tr. exContracts),
     RefreshContracts = (\<lambda>tr. None),
     IsEnabledScanner = (\<lambda>tr scannerID. Inr False),
     GetAgent = (\<lambda>tr agentID. Inr \<lparr>Enabled = False\<rparr>),
     GetScannerPoolOwner = (\<lambda>tr poolID. Inr ''0xB9'')\<rparr>"

definition exConfig :: ListenerConfig where
  "exConfig = \<lparr>
     Name = ''listener'', JsonRpcURL = [], ENSAddress = [],
     ListenerConfig.StartBlock = None, ListenerConfig.EndBlock = None,
     BlockOffset = 0, Handlers = (\<lambda>tr m. None), ContractFilter = None,
     ListenerConfig.Topics = [],
     Proxy = None, NoRefresh = False\<rparr>"

definition exListener :: listener where
  "exListener = \<lparr>
     ctx = (\<lambda>tr. None), cfg = exConfig, client = exClient,
     eth = \<lparr>BlockNumber = Inr 500\<rparr>, handler = (\<lambda>tr m. None)\<rparr>"

definition exLog :: "address \<Rightarrow> string \<Rightarrow> 8 word list \<Rightarrow> Log" where
  "exLog a topic bytes = \<lparr>
     Address = a, Log.Topics = [topic], Data = bytes, Log.BlockNumber = 480, TxHash = ''0xT'',
     TxIndex = 0, BlockHash = ''0xH'', Index = 0, Removed = False\<rparr>"

definition exBlock :: Block where
  "exBlock = \<lparr>Number = ''0x1e0'', Hash = ''0xH'', ParentHash = ''0xP'', Timestamp = ''0x0''\<rparr>"

text \<open>A batch transfer log, its share-transfer messages, and a sink that refuses one.\<close>

definition exBatchLog :: Log where
  "exBatchLog = exLog ''0xA4'' ''forta_staking.TransferBatch'' []"

definition exShare :: "int \<Rightarrow> int \<Rightarrow> message" where
  "exShare i v = TransferSharesMessage exBatchLog ''0xB0'' ''0xB1'' ''0xB2'' i v exBlock"

definition exFailingSink :: sink where
  "exFailingSink tr m = (if m = exShare 12 200 then Some (Error ''sink'') else None)"

text \<open>
  A log with the upgrade topic from the staking contract's address, the calls its
  handling makes before the log is routed, a deployment without the two optional
  roles, and a filter that selects the scanner pool registry alone.
\<close>

definition exUpgradeLog :: Log where
  "exUpgradeLog = exLog ''0xA4'' UpgradedTopic []"

definition exBareContracts :: Contracts where
  "exBareContracts = exContracts\<lparr>Addresses :=
     exAddresses\<lparr>RegistryContracts.ScannerPoolRegistry := None,
                  RegistryContracts.StakeAllocator := None\<rparr>\<rparr>"

definition exBareClient :: Client where
  "exBareClient = exClient\<lparr>Contracts := (\<lambda>tr. exBareContracts)\<rparr>"

definition exPoolOnlyFilter :: ContractFilter where
  "exPoolOnlyFilter = \<lparr>
     AgentRegistry = False, ScannerRegistry = False, ScannerPoolRegistry = True,
     DispatchRegistry = False, FortaStaking = False, ScannerVersion = False,
     StakeAllocator = False\<rparr>"

definition exUpgradeTrace :: trace where
  "exUpgradeTrace =
     [RefreshContractsCall,
      AddAddressCall ''0xA1'', AddAddressCall ''0xA2'', AddAddressCall ''0xA3'',
      AddAddressCall ''0xA4'', AddAddressCall ''0xA5'', AddAddressCall ''0xA6'',
      AddAddressCall ''0xA7'',
      HandlerCall (NewUpgradeMessage (Decoded []) exUpgradeLog exBlock)]"

section \<open>Properties\<close>

subsection \<open>Paging\<close>

lemma NewInt_Int64: "- (2^63) \<le> x \<Longrightarrow> x < 2^63 \<Longrightarrow> NewInt (Int64 x) = x"
  unfolding NewInt_def Int64_def
  by (simp add: sint_sbintrunc' signed_take_bit_int_eq_self)

lemma NewInt_sub:
  assumes "0 < H" "H < 2^63" "0 < sint (b::int64)"
  shows "NewInt (Int64 H - b) = H - sint b"
proof -
  have b: "sint b < 2^63" using sint_lt[of b] by simp
  have "sint (Int64 H) = H" using assms NewInt_Int64[of H] by (simp add: NewInt_def)
  then have "sint (Int64 H - b) = signed_take_bit 63 (H - sint b)"
    by (simp add: sint_word_ariths word_size)
  also have "\<dots> = H - sint b"
    using assms b by (intro signed_take_bit_int_eq_self) auto
  finally show ?thesis by (simp add: NewInt_def)
qed

lemma Int64_pos: "0 < H \<Longrightarrow> H < 2^63 \<Longrightarrow> Int64 H \<noteq> 0"
  using NewInt_Int64[of H] by (auto simp: NewInt_def)

text \<open>
  The pages of a range \<open>start \<le> endBlock\<close>, read one after the other, are the blocks
  of the range in ascending order, each exactly once.
\<close>

lemma producePages_blocks:
  "start \<le> endP \<Longrightarrow> endP \<le> endBlock \<Longrightarrow> - (2^63) \<le> start \<Longrightarrow> endBlock < 2^63 \<Longrightarrow>
   concat (map pageBlocks (producePages start endP endBlock)) = [start..endBlock]"
proof (induction start endP endBlock rule: producePages.induct)
  case (1 start endP endBlock)
  have s: "NewInt (Int64 start) = start" and e: "NewInt (Int64 endP) = endP"
    using "1.prems" by (auto intro: NewInt_Int64)
  show ?case
  proof (cases "endP = endBlock")
    case True
    then show ?thesis
      using "1.prems" s e by (subst producePages.simps) (simp add: pageBlocks_def)
  next
    case False
    let ?s = "endP + 1" and ?e = "BigMin ((endP + 1) + pageSize) endBlock"
    have lt: "endP < endBlock" using False "1.prems" by simp
    have "concat (map pageBlocks (producePages ?s ?e endBlock)) = [?s..endBlock]"
      using "1.prems" lt False
      by (intro "1.IH") (auto simp: BigMin_def pageSize_def)
    then show ?thesis
      using "1.prems" lt s e upto_split2[of start endP endBlock]
      by (subst producePages.simps) (simp add: pageBlocks_def)
  qed
qed

text \<open>Every page is a non-empty interval whose two ends are at most \<open>pageSize\<close> apart.\<close>

lemma producePages_width:
  "start \<le> endP \<Longrightarrow> endP \<le> start + pageSize \<Longrightarrow> endP \<le> endBlock \<Longrightarrow>
   - (2^63) \<le> start \<Longrightarrow> endBlock < 2^63 \<Longrightarrow>
   p \<in> set (producePages start endP endBlock) \<Longrightarrow>
   NewInt (Start p) \<le> NewInt (End p) \<and> NewInt (End p) - NewInt (Start p) \<le> pageSize"
proof (induction start endP endBlock rule: producePages.induct)
  case (1 start endP endBlock)
  have s: "NewInt (Int64 start) = start" and e: "NewInt (Int64 endP) = endP"
    using "1.prems" by (auto intro: NewInt_Int64)
  show ?case
  proof (cases "endP = endBlock")
    case True
    then show ?thesis
      using "1.prems" s e by (subst (asm) producePages.simps) auto
  next
    case False
    let ?s = "endP + 1" and ?e = "BigMin ((endP + 1) + pageSize) endBlock"
    have lt: "endP < endBlock" using False "1.prems" by simp
    from "1.prems"(6) have "p = \<lparr>Start = Int64 start, End = Int64 endP\<rparr>
        \<or> p \<in> set (producePages ?s ?e endBlock)"
      using lt by (subst (asm) producePages.simps) auto
    then show ?thesis
    proof
      assume "p = \<lparr>Start = Int64 start, End = Int64 endP\<rparr>"
      then show ?thesis using "1.prems" s e by simp
    next
      assume "p \<in> set (producePages ?s ?e endBlock)"
      then show ?thesis
        using "1.prems" lt False
        by (intro "1.IH") (auto simp: BigMin_def pageSize_def)
    qed
  qed
qed

lemma upto_length_bounds:
  assumes "(a::int) \<le> b" "b - a \<le> 10000"
  shows "1 \<le> length [a..b] \<and> length [a..b] \<le> 10001"
proof -
  have "length [a..b] = nat (b - a + 1)" by simp
  moreover have "1 \<le> nat (b - a + 1)" using assms by linarith
  moreover have "nat (b - a + 1) \<le> 10001" using assms by linarith
  ultimately show ?thesis by simp
qed

text \<open>
  What holds of \<^verbatim>\<open>ProcessBlockRange\<close> on a range \<open>start \<le> end\<close> of \<^verbatim>\<open>int64\<close> block
  numbers: the pages are contiguous and disjoint and cover every block exactly once,
  and a page holds between 1 and 10001 blocks.
\<close>

theorem ProcessBlockRange_partition:
  assumes "start \<le> endBlock" "- (2^63) \<le> start" "endBlock < 2^63"
  shows "\<exists>pages. ProcessBlockRange l start (Some endBlock) = Inr pages
           \<and> concat (map pageBlocks pages) = [start..endBlock]
           \<and> (\<forall>p \<in> set pages. 1 \<le> length (pageBlocks p) \<and> length (pageBlocks p) \<le> 10001)"
proof -
  let ?e = "BigMin (start + pageSize) endBlock"
  let ?pages = "producePages start ?e endBlock"
  have e: "start \<le> ?e" "?e \<le> start + pageSize" "?e \<le> endBlock"
    using assms by (auto simp: BigMin_def pageSize_def)
  have "concat (map pageBlocks ?pages) = [start..endBlock]"
    using e assms by (intro producePages_blocks) auto
  moreover have "1 \<le> length (pageBlocks p) \<and> length (pageBlocks p) \<le> 10001"
    if "p \<in> set ?pages" for p
    unfolding pageBlocks_def
    using producePages_width[OF e(1) e(2) e(3) assms(2) assms(3) that]
    by (intro upto_length_bounds) (simp_all add: pageSize_def)
  moreover have "ProcessBlockRange l start (Some endBlock) = Inr ?pages"
    by (simp add: ProcessBlockRange_def)
  ultimately show ?thesis
    by blast
qed

text \<open>
  C1. The claim asks for pages of at most 10,000 blocks. The first page of a range
  runs from \<open>start\<close> to \<open>start + 10000\<close>, both ends included: on the range from block 0
  to block 10000 the pager produces the single page \<open>[0, 10000]\<close>, which holds 10001
  blocks.
\<close>

theorem ProcessBlockRange_page_of_10001_blocks:
  "ProcessBlockRange l 0 (Some 10000) = Inr [\<lparr>Start = 0, End = 10000\<rparr>]
   \<and> length (pageBlocks \<lparr>Start = 0, End = 10000\<rparr>) = 10001"
  by (simp add: ProcessBlockRange_def BigMin_def pageSize_def Int64_def pageBlocks_def NewInt_def
        producePages.simps)

text \<open>
  C10. With the chain at height \<open>H > 0\<close> (an \<^verbatim>\<open>int64\<close> block number) and
  \<open>blocksAgo > 0\<close>, \<^verbatim>\<open>ProcessLastBlocks\<close> calls \<^verbatim>\<open>ProcessBlockRange\<close> with start \<open>H\<close> and
  end \<open>H - blocksAgo\<close>, start above end, and this produces exactly one page, from \<open>H\<close>
  to \<open>H - blocksAgo\<close>. At height 0 it returns an error and no page.
\<close>

theorem ProcessLastBlocks_single_page:
  "(eth_client.BlockNumber (eth l) = Inr H \<and> 0 < H \<and> H < 2^63 \<and> 0 < sint blocksAgo \<longrightarrow>
      ProcessLastBlocks l blocksAgo = ProcessBlockRange l H (Some (H - sint blocksAgo))
      \<and> ProcessBlockRange l H (Some (H - sint blocksAgo)) =
          Inr [\<lparr>Start = Int64 H, End = Int64 (H - sint blocksAgo)\<rparr>]
      \<and> NewInt (Int64 H) = H
      \<and> NewInt (Int64 (H - sint blocksAgo)) = H - sint blocksAgo
      \<and> H - sint blocksAgo < H)
   \<and> (eth_client.BlockNumber (eth l) = Inr 0 \<longrightarrow>
      ProcessLastBlocks l blocksAgo = Inl (Error ''current block is unexpectedly 0''))"
proof (intro conjI impI)
  assume a: "eth_client.BlockNumber (eth l) = Inr H \<and> 0 < H \<and> H < 2^63 \<and> 0 < sint blocksAgo"
  then have H: "0 < H" "H < 2^63" and b: "0 < sint blocksAgo" by auto
  have b': "sint blocksAgo < 2^63" using sint_lt[of blocksAgo] by simp
  show "ProcessLastBlocks l blocksAgo = ProcessBlockRange l H (Some (H - sint blocksAgo))"
    using a Int64_pos[OF H] NewInt_sub[OF H b] by (simp add: ProcessLastBlocks_def)
  show "ProcessBlockRange l H (Some (H - sint blocksAgo)) =
          Inr [\<lparr>Start = Int64 H, End = Int64 (H - sint blocksAgo)\<rparr>]"
    using b by (simp add: ProcessBlockRange_def BigMin_def pageSize_def producePages.simps)
  show "NewInt (Int64 H) = H" using H by (intro NewInt_Int64) auto
  show "NewInt (Int64 (H - sint blocksAgo)) = H - sint blocksAgo"
    using H b b' by (intro NewInt_Int64) auto
  show "H - sint blocksAgo < H" using b by simp
next
  assume "eth_client.BlockNumber (eth l) = Inr 0"
  then show "ProcessLastBlocks l blocksAgo = Inl (Error ''current block is unexpectedly 0'')"
    by (simp add: ProcessLastBlocks_def Int64_def)
qed

theorem ProcessLastBlocks_single_page_witness:
  "eth_client.BlockNumber (eth exListener) = Inr 500 \<and> (0::int) < 500 \<and> (500::int) < 2^63
   \<and> 0 < sint (20::int64)
   \<and> ProcessLastBlocks exListener 20 = Inr [\<lparr>Start = 500, End = 480\<rparr>]
   \<and> eth_client.BlockNumber (eth (exListener\<lparr>eth := \<lparr>BlockNumber = Inr 0\<rparr>\<rparr>)) = Inr 0
   \<and> ProcessLastBlocks (exListener\<lparr>eth := \<lparr>BlockNumber = Inr 0\<rparr>\<rparr>) 20
       = Inl (Error ''current block is unexpectedly 0'')"
  using ProcessLastBlocks_single_page[of exListener 500 20]
        ProcessLastBlocks_single_page[of "exListener\<lparr>eth := \<lparr>BlockNumber = Inr 0\<rparr>\<rparr>" 0 20]
  by (simp add: exListener_def Int64_def)

subsection \<open>Per-role interpretation\<close>



text \<open>
  C5. A \<^verbatim>\<open>Transfer\<close> event of the scanner pool registry whose sender is the zero
  address gives no message and no error; with any other sender the handler is called
  exactly once, with the ownership-change message.
\<close>

theorem Transfer_from_zero_suppressed:
  "(getTopic k le = ScannerPoolRegistry_TransferTopic k
      \<and> ScannerPoolRegistry_TransferTopic k \<noteq> ScannerPoolRegistry_ScannerUpdatedTopic k
      \<and> ScannerPoolRegistry_TransferTopic k \<noteq> ScannerPoolRegistry_ManagedStakeThresholdChangedTopic k
      \<and> ParseTransfer (ScannerPoolRegFil c) le = Inr evt
    \<longrightarrow> (ScannerPoolRegistryTransfer.From evt = ZeroAddress
           \<longrightarrow> handleScannerPoolRegistryEvent k l c le blk tr = (Return None, tr))
        \<and> (ScannerPoolRegistryTransfer.From evt \<noteq> ZeroAddress
           \<longrightarrow> handleScannerPoolRegistryEvent k l c le blk tr =
               (Return (handler l tr (NewScannerPoolMessageFromTransfer evt blk)),
                tr @ [HandlerCall (NewScannerPoolMessageFromTransfer evt blk)])))"
  by (simp add: handleScannerPoolRegistryEvent_def deliver_def Hex_def)

theorem Transfer_from_zero_suppressed_witness:
  "handleScannerPoolRegistryEvent exPkg exListener exContracts
      (exLog ''0xA6'' ''scanner_pool_registry.Transfer'' []) exBlock [] = (Return None, [])
   \<and> handleScannerPoolRegistryEvent exPkg exListener exContracts
      (exLog ''0xA6'' ''scanner_pool_registry.Transfer'' [1]) exBlock [] =
     (Return None, [HandlerCall (NewScannerPoolMessageFromTransfer (exTransfer ''0xB1'') exBlock)])"
  using Transfer_from_zero_suppressed[of exPkg
          "exLog ''0xA6'' ''scanner_pool_registry.Transfer'' []" exContracts
          "exTransfer ZeroAddress" exListener exBlock "[]"]
        Transfer_from_zero_suppressed[of exPkg
          "exLog ''0xA6'' ''scanner_pool_registry.Transfer'' [1]" exContracts
          "exTransfer ''0xB1''" exListener exBlock "[]"]
  by (simp add: exPkg_def exListener_def exContracts_def exLog_def exTransfer_def ZeroAddress_def)

text \<open>
  The rendering of a big integer is its decimal notation: it reads back as the
  integer, and it has the form of a decimal numeral.
\<close>

lemma below_ten: "(d::nat) < 10 \<Longrightarrow> d \<in> {0, 1, 2, 3, 4, 5, 6, 7, 8, 9}"
  by auto

lemma digit_value_nth: "d < 10 \<Longrightarrow> spec_digit_value (''0123456789'' ! d) = d"
  using below_ten[of d] by (auto simp: spec_digit_value_def)

lemma digit_nth_is_digit: "d < 10 \<Longrightarrow> ''0123456789'' ! d \<in> set ''0123456789''"
  using below_ten[of d] by auto

lemma digit_nth_zero: "d < 10 \<Longrightarrow> ''0123456789'' ! d = CHR ''0'' \<longleftrightarrow> d = 0"
  using below_ten[of d] by auto

lemma digitsOf_value: "spec_decimal_nat (digitsOf n) = n"
proof (induction n rule: digitsOf.induct)
  case (1 n)
  show ?case
  proof (cases "n < 10")
    case True
    then show ?thesis
      by (subst digitsOf.simps) (simp add: spec_decimal_nat_def digit_value_nth)
  next
    case False
    have "spec_decimal_nat (digitsOf (n div 10)) = n div 10" using 1 False by simp
    then show ?thesis using False
      by (subst digitsOf.simps) (simp add: spec_decimal_nat_def digit_value_nth)
  qed
qed

lemma digitsOf_digits: "list_all (\<lambda>c. c \<in> set ''0123456789'') (digitsOf n)"
proof (induction n rule: digitsOf.induct)
  case (1 n)
  show ?case
  proof (cases "n < 10")
    case True
    then show ?thesis
      using digit_nth_is_digit[of n] by (subst digitsOf.simps) simp
  next
    case False
    then show ?thesis
      using 1 digit_nth_is_digit[of "n mod 10"] by (subst digitsOf.simps) simp
  qed
qed

lemma digitsOf_nonempty: "digitsOf n \<noteq> []"
  by (subst digitsOf.simps) simp

lemma digitsOf_leading: "hd (digitsOf n) = CHR ''0'' \<Longrightarrow> n = 0 \<and> digitsOf n = ''0''"
proof (induction n rule: digitsOf.induct)
  case (1 n)
  show ?case
  proof (cases "n < 10")
    case True
    have eq: "digitsOf n = [''0123456789'' ! n]" using True by (subst digitsOf.simps) simp
    then have "n = 0" using "1.prems" digit_nth_zero[OF True] by simp
    then show ?thesis using eq by simp
  next
    case False
    have eq: "digitsOf n = digitsOf (n div 10) @ [''0123456789'' ! (n mod 10)]"
      using False by (subst digitsOf.simps) simp
    then have "hd (digitsOf (n div 10)) = CHR ''0''"
      using "1.prems" digitsOf_nonempty[of "n div 10"] by simp
    then have "n div 10 = 0" using 1 False by simp
    then show ?thesis using False by simp
  qed
qed

lemma digitsOf_no_minus: "hd (digitsOf n) \<noteq> CHR ''-''"
proof -
  have "list_all (\<lambda>c. c \<in> set ''0123456789'') (digitsOf n)" by (rule digitsOf_digits)
  then have "hd (digitsOf n) \<in> set ''0123456789''"
    using digitsOf_nonempty[of n] by (cases "digitsOf n") auto
  then show ?thesis by auto
qed

lemma BigIntString_value: "spec_decimal_value (BigIntString x) = x"
proof (cases "x < 0")
  case True
  then show ?thesis by (simp add: BigIntString_def spec_decimal_value_def digitsOf_value)
next
  case False
  obtain c ds where cd: "digitsOf (nat x) = c # ds"
    using digitsOf_nonempty[of "nat x"] by (cases "digitsOf (nat x)") auto
  have "c \<noteq> CHR ''-''" using digitsOf_no_minus[of "nat x"] cd by simp
  moreover have "spec_decimal_nat (c # ds) = nat x" using digitsOf_value[of "nat x"] cd by simp
  ultimately show ?thesis using False cd by (simp add: BigIntString_def spec_decimal_value_def)
qed

lemma BigIntString_decimal: "spec_is_decimal (BigIntString x)"
proof (cases "x < 0")
  case True
  then have "nat (- x) \<noteq> 0" by simp
  then have "hd (digitsOf (nat (- x))) \<noteq> CHR ''0''" using digitsOf_leading[of "nat (- x)"] by auto
  then show ?thesis using True digitsOf_nonempty[of "nat (- x)"] digitsOf_digits[of "nat (- x)"]
    by (simp add: BigIntString_def spec_is_decimal_def)
next
  case False
  obtain c ds where cd: "digitsOf (nat x) = c # ds"
    using digitsOf_nonempty[of "nat x"] by (cases "digitsOf (nat x)") auto
  have nm: "c \<noteq> CHR ''-''" using digitsOf_no_minus[of "nat x"] cd by simp
  have dg: "list_all (\<lambda>c. c \<in> set ''0123456789'') (c # ds)" using digitsOf_digits[of "nat x"] cd by simp
  have ld: "c \<noteq> CHR ''0'' \<or> c # ds = ''0''" using digitsOf_leading[of "nat x"] cd by auto
  show ?thesis using False cd nm dg ld
    by (auto simp: BigIntString_def spec_is_decimal_def)
qed

text \<open>
  C6. \<^verbatim>\<open>StakeDeposited\<close>, \<^verbatim>\<open>WithdrawalInitiated\<close> and \<^verbatim>\<open>Slashed\<close> all end in the
  switch on the subject type, which encodes the subject: with the scanner encoder
  \<^verbatim>\<open>utils.ScannerIDBigIntToHex\<close> for a scanner, with the agent encoder
  \<^verbatim>\<open>utils.AgentBigIntToHex\<close> for an agent, and for a scanner pool with the string
  that is the decimal notation of the subject id, whatever the id: it has the form of
  a decimal numeral and reads back as the id (7 gives \<open>''7''\<close>). Any other subject type
  is logged and gives no message and no error.
\<close>

theorem stake_subject_identifier:
  "(getTopic k le = FortaStaking_StakeDepositedTopic k
      \<and> ParseStakeDeposited (FortaStakingFil c) le = Inr dep
    \<longrightarrow> handleFortaStakingEvent k l c le blk tr =
          stakeBySubjectType k l le blk (FortaStakingStakeDeposited.SubjectType dep)
            (FortaStakingStakeDeposited.Subject dep) (ChangeTypeDeposit k)
            (Some (Amount dep)) (Account dep) tr)
   \<and> (getTopic k le = FortaStaking_WithdrawalInitiatedTopic k
      \<and> FortaStaking_WithdrawalInitiatedTopic k \<noteq> FortaStaking_StakeDepositedTopic k
      \<and> ParseWithdrawalInitiated (FortaStakingFil c) le = Inr wi
    \<longrightarrow> handleFortaStakingEvent k l c le blk tr =
          stakeBySubjectType k l le blk (FortaStakingWithdrawalInitiated.SubjectType wi)
            (FortaStakingWithdrawalInitiated.Subject wi) (ChangeTypeWithdrawal k)
            None ZeroAddress tr)
   \<and> (getTopic k le = FortaStaking_SlashedTopic k
      \<and> FortaStaking_SlashedTopic k \<noteq> FortaStaking_StakeDepositedTopic k
      \<and> FortaStaking_SlashedTopic k \<noteq> FortaStaking_WithdrawalInitiatedTopic k
      \<and> ParseSlashed (FortaStakingFil c) le = Inr sl
    \<longrightarrow> handleFortaStakingEvent k l c le blk tr =
          stakeBySubjectType k l le blk (FortaStakingSlashed.SubjectType sl)
            (FortaStakingSlashed.Subject sl) (ChangeTypeSlash k)
            (Some (FortaStakingSlashed.Value sl)) ZeroAddress tr)
   \<and> (subjectType = SubjectTypeScanner k
    \<longrightarrow> stakeBySubjectType k l le blk subjectType subjectID changeType val acct tr =
          (let m = NewScannerStakeMessage le changeType acct (ScannerIDBigIntToHex k subjectID) val blk
           in (Return (handler l tr m), tr @ [HandlerCall m])))
   \<and> (subjectType = SubjectTypeAgent k \<and> SubjectTypeAgent k \<noteq> SubjectTypeScanner k
    \<longrightarrow> stakeBySubjectType k l le blk subjectType subjectID changeType val acct tr =
          (let m = NewAgentStakeMessage le changeType acct (AgentBigIntToHex k subjectID) val blk
           in (Return (handler l tr m), tr @ [HandlerCall m])))
   \<and> (subjectType = SubjectTypeScannerPool k \<and> SubjectTypeScannerPool k \<noteq> SubjectTypeScanner k
      \<and> SubjectTypeScannerPool k \<noteq> SubjectTypeAgent k
    \<longrightarrow> stakeBySubjectType k l le blk subjectType subjectID changeType val acct tr =
          (let m = NewScannerPoolStakeMessage le changeType acct (BigIntString subjectID) val blk
           in (Return (handler l tr m), tr @ [HandlerCall m])))
   \<and> (subjectType \<noteq> SubjectTypeScanner k \<and> subjectType \<noteq> SubjectTypeAgent k
      \<and> subjectType \<noteq> SubjectTypeScannerPool k
    \<longrightarrow> stakeBySubjectType k l le blk subjectType subjectID changeType val acct tr =
          (Return None, tr @ [LoggerWarn subjectType ''unhandled subject ID, ignoring'']))
   \<and> spec_is_decimal (BigIntString subjectID)
   \<and> spec_decimal_value (BigIntString subjectID) = subjectID
   \<and> BigIntString 7 = ''7''"
proof -
  have form: "spec_is_decimal (BigIntString subjectID)"
    by (rule BigIntString_decimal)
  have reads: "spec_decimal_value (BigIntString subjectID) = subjectID"
    by (rule BigIntString_value)
  have seven: "BigIntString 7 = ''7''"
    by (simp add: BigIntString_def digitsOf.simps)
  show ?thesis
    using form reads seven
    by (simp add: handleFortaStakingEvent_def stakeBySubjectType_def deliver_def Let_def)
qed

theorem stake_subject_identifier_witness:
  "handleFortaStakingEvent exPkg exListener exContracts
      (exLog ''0xA4'' ''forta_staking.StakeDeposited'' [2]) exBlock [] =
     (Return None,
      [HandlerCall (NewScannerPoolStakeMessage
         (exLog ''0xA4'' ''forta_staking.StakeDeposited'' [2]) ''deposit'' ''0xB1'' ''7''
         (Some 100) exBlock)])
   \<and> handleFortaStakingEvent exPkg exListener exContracts
      (exLog ''0xA4'' ''forta_staking.Slashed'' [0]) exBlock [] =
     (Return None,
      [HandlerCall (NewScannerStakeMessage
         (exLog ''0xA4'' ''forta_staking.Slashed'' [0]) ''slash'' ZeroAddress ''scanner-7''
         (Some 50) exBlock)])
   \<and> handleFortaStakingEvent exPkg exListener exContracts
      (exLog ''0xA4'' ''forta_staking.WithdrawalInitiated'' [1]) exBlock [] =
     (Return None,
      [HandlerCall (NewAgentStakeMessage
         (exLog ''0xA4'' ''forta_staking.WithdrawalInitiated'' [1]) ''withdrawal'' ZeroAddress
         ''agent-7'' None exBlock)])
   \<and> handleFortaStakingEvent exPkg exListener exContracts
      (exLog ''0xA4'' ''forta_staking.StakeDeposited'' [9]) exBlock [] =
     (Return None, [LoggerWarn 9 ''unhandled subject ID, ignoring''])
   \<and> spec_is_decimal ''7'' \<and> spec_decimal_value ''7'' = 7"
  using stake_subject_identifier[of exPkg
          "exLog ''0xA4'' ''forta_staking.StakeDeposited'' [2]" exContracts
          "\<lparr>FortaStakingStakeDeposited.SubjectType = 2, FortaStakingStakeDeposited.Subject = 7,
            Account = ''0xB1'', Amount = 100\<rparr>" exListener exBlock "[]" _ _ 2 7 "''deposit''"
          "Some 100" "''0xB1''"]
        stake_subject_identifier[of exPkg
          "exLog ''0xA4'' ''forta_staking.Slashed'' [0]" exContracts _ exListener exBlock "[]" _
          "\<lparr>FortaStakingSlashed.SubjectType = 0, FortaStakingSlashed.Subject = 7,
            FortaStakingSlashed.Value = 50\<rparr>" 0 7 "''slash''" "Some 50" ZeroAddress]
        stake_subject_identifier[of exPkg
          "exLog ''0xA4'' ''forta_staking.WithdrawalInitiated'' [1]" exContracts _ exListener
          exBlock "[]"
          "\<lparr>FortaStakingWithdrawalInitiated.SubjectType = 1,
            FortaStakingWithdrawalInitiated.Subject = 7\<rparr>" _ 1 7 "''withdrawal''" None ZeroAddress]
        stake_subject_identifier[of exPkg
          "exLog ''0xA4'' ''forta_staking.StakeDeposited'' [9]" exContracts
          "\<lparr>FortaStakingStakeDeposited.SubjectType = 9, FortaStakingStakeDeposited.Subject = 7,
            Account = ''0xB1'', Amount = 100\<rparr>" exListener exBlock "[]" _ _ 9 7 "''deposit''"
          "Some 100" "''0xB1''"]
  by (simp add: exPkg_def exListener_def exContracts_def exLog_def BigIntString_def
        digitsOf.simps spec_is_decimal_def spec_decimal_value_def spec_decimal_nat_def
        spec_digit_value_def)

text \<open>The delivery loop: every message when none is refused, else up to the first refusal.\<close>

lemma deliverAll_all_delivered:
  "(\<forall>j<length ms. handler l (tr @ map HandlerCall (take j ms)) (ms ! j) = None) \<Longrightarrow>
   deliverAll l ms tr = (Return None, tr @ map HandlerCall ms)"
proof (induction ms arbitrary: tr)
  case Nil
  then show ?case by simp
next
  case (Cons m ms)
  have first: "handler l tr m = None" using Cons.prems[rule_format, of 0] by simp
  have rest: "\<forall>j<length ms. handler l ((tr @ [HandlerCall m]) @ map HandlerCall (take j ms)) (ms ! j) = None"
  proof (intro allI impI)
    fix j assume "j < length ms"
    then show "handler l ((tr @ [HandlerCall m]) @ map HandlerCall (take j ms)) (ms ! j) = None"
      using Cons.prems[rule_format, of "Suc j"] by simp
  qed
  show ?case using first Cons.IH[OF rest] by simp
qed

lemma deliverAll_stops_at_first_error:
  "j < length ms \<Longrightarrow>
   (\<forall>i<j. handler l (tr @ map HandlerCall (take i ms)) (ms ! i) = None) \<Longrightarrow>
   handler l (tr @ map HandlerCall (take j ms)) (ms ! j) = Some err \<Longrightarrow>
   deliverAll l ms tr = (Return (Some err), tr @ map HandlerCall (take (Suc j) ms))"
proof (induction ms arbitrary: tr j)
  case Nil
  then show ?case by simp
next
  case (Cons m ms)
  show ?case
  proof (cases j)
    case 0
    then show ?thesis using Cons.prems by simp
  next
    case (Suc j')
    have first: "handler l tr m = None" using Cons.prems(2)[rule_format, of 0] Suc by simp
    have lt: "j' < length ms" using Cons.prems(1) Suc by simp
    have before: "\<forall>i<j'. handler l ((tr @ [HandlerCall m]) @ map HandlerCall (take i ms)) (ms ! i) = None"
    proof (intro allI impI)
      fix i assume "i < j'"
      then show "handler l ((tr @ [HandlerCall m]) @ map HandlerCall (take i ms)) (ms ! i) = None"
        using Cons.prems(2)[rule_format, of "Suc i"] Suc by simp
    qed
    have at: "handler l ((tr @ [HandlerCall m]) @ map HandlerCall (take j' ms)) (ms ! j') = Some err"
      using Cons.prems(3) Suc by simp
    show ?thesis using first Cons.IH[OF lt before at] Suc by simp
  qed
qed

text \<open>
  C7. A \<^verbatim>\<open>TransferBatch\<close> event with \<open>K\<close> transferred entries becomes \<open>K\<close>
  share-transfer messages, which go to the sink one at a time and in order: all \<open>K\<close>
  when the sink accepts each of them, and when the sink refuses the \<open>j\<close>-th one the
  handler returns that error with the \<open>j\<close>-th call as the last one made.
\<close>

theorem TransferBatch_delivered_in_order:
  "getTopic k le = FortaStaking_TransferBatchTopic k
     \<and> FortaStaking_TransferBatchTopic k \<noteq> FortaStaking_StakeDepositedTopic k
     \<and> FortaStaking_TransferBatchTopic k \<noteq> FortaStaking_WithdrawalInitiatedTopic k
     \<and> FortaStaking_TransferBatchTopic k \<noteq> FortaStaking_SlashedTopic k
     \<and> FortaStaking_TransferBatchTopic k \<noteq> FortaStaking_TransferSingleTopic k
     \<and> ParseTransferBatch (FortaStakingFil c) le = Inr evt
     \<and> length (Ids evt) = K \<and> length (Values evt) = K
   \<longrightarrow> (\<exists>ms. TransferSharesMessagesFromBatch le evt blk = Inr ms \<and> length ms = K
          \<and> ((\<forall>j<K. handler l (tr @ map HandlerCall (take j ms)) (ms ! j) = None)
              \<longrightarrow> handleFortaStakingEvent k l c le blk tr = (Return None, tr @ map HandlerCall ms))
          \<and> (\<forall>j err. j < K
                \<and> (\<forall>i<j. handler l (tr @ map HandlerCall (take i ms)) (ms ! i) = None)
                \<and> handler l (tr @ map HandlerCall (take j ms)) (ms ! j) = Some err
              \<longrightarrow> handleFortaStakingEvent k l c le blk tr =
                  (Return (Some err), tr @ map HandlerCall (take (Suc j) ms))))"
proof (intro impI)
  assume a: "getTopic k le = FortaStaking_TransferBatchTopic k
     \<and> FortaStaking_TransferBatchTopic k \<noteq> FortaStaking_StakeDepositedTopic k
     \<and> FortaStaking_TransferBatchTopic k \<noteq> FortaStaking_WithdrawalInitiatedTopic k
     \<and> FortaStaking_TransferBatchTopic k \<noteq> FortaStaking_SlashedTopic k
     \<and> FortaStaking_TransferBatchTopic k \<noteq> FortaStaking_TransferSingleTopic k
     \<and> ParseTransferBatch (FortaStakingFil c) le = Inr evt
     \<and> length (Ids evt) = K \<and> length (Values evt) = K"
  define ms where "ms = map (\<lambda>(i, v). TransferSharesMessage le (FortaStakingTransferBatch.Operator evt)
                 (FortaStakingTransferBatch.From evt) (FortaStakingTransferBatch.To evt) i v blk)
            (zip (Ids evt) (Values evt))"
  have conv: "TransferSharesMessagesFromBatch le evt blk = Inr ms"
    by (simp add: TransferSharesMessagesFromBatch_def ms_def)
  have len: "length ms = K" using a by (simp add: ms_def)
  have run: "handleFortaStakingEvent k l c le blk tr = deliverAll l ms tr"
    using a conv by (simp add: handleFortaStakingEvent_def)
  have ok: "handleFortaStakingEvent k l c le blk tr = (Return None, tr @ map HandlerCall ms)"
    if "\<forall>j<K. handler l (tr @ map HandlerCall (take j ms)) (ms ! j) = None"
    using that len run deliverAll_all_delivered[of ms l tr] by simp
  have stop: "handleFortaStakingEvent k l c le blk tr =
                  (Return (Some err), tr @ map HandlerCall (take (Suc j) ms))"
    if "j < K" "\<forall>i<j. handler l (tr @ map HandlerCall (take i ms)) (ms ! i) = None"
       "handler l (tr @ map HandlerCall (take j ms)) (ms ! j) = Some err" for j err
    using that len run deliverAll_stops_at_first_error[of j ms l tr err] by simp
  show "\<exists>ms. TransferSharesMessagesFromBatch le evt blk = Inr ms \<and> length ms = K
          \<and> ((\<forall>j<K. handler l (tr @ map HandlerCall (take j ms)) (ms ! j) = None)
              \<longrightarrow> handleFortaStakingEvent k l c le blk tr = (Return None, tr @ map HandlerCall ms))
          \<and> (\<forall>j err. j < K
                \<and> (\<forall>i<j. handler l (tr @ map HandlerCall (take i ms)) (ms ! i) = None)
                \<and> handler l (tr @ map HandlerCall (take j ms)) (ms ! j) = Some err
              \<longrightarrow> handleFortaStakingEvent k l c le blk tr =
                  (Return (Some err), tr @ map HandlerCall (take (Suc j) ms)))"
    using conv len ok stop by blast
qed

theorem TransferBatch_delivered_in_order_witness:
  "handleFortaStakingEvent exPkg exListener exContracts exBatchLog exBlock [] =
     (Return None,
      [HandlerCall (exShare 11 100), HandlerCall (exShare 12 200), HandlerCall (exShare 13 300)])
   \<and> handleFortaStakingEvent exPkg (exListener\<lparr>handler := exFailingSink\<rparr>) exContracts
        exBatchLog exBlock [] =
     (Return (Some (Error ''sink'')),
      [HandlerCall (exShare 11 100), HandlerCall (exShare 12 200)])"
proof -
  have ms: "TransferSharesMessagesFromBatch exBatchLog exBatch exBlock =
              Inr [exShare 11 100, exShare 12 200, exShare 13 300]"
    by (simp add: TransferSharesMessagesFromBatch_def exBatch_def exShare_def)
  have pre: "getTopic exPkg exBatchLog = FortaStaking_TransferBatchTopic exPkg
     \<and> FortaStaking_TransferBatchTopic exPkg \<noteq> FortaStaking_StakeDepositedTopic exPkg
     \<and> FortaStaking_TransferBatchTopic exPkg \<noteq> FortaStaking_WithdrawalInitiatedTopic exPkg
     \<and> FortaStaking_TransferBatchTopic exPkg \<noteq> FortaStaking_SlashedTopic exPkg
     \<and> FortaStaking_TransferBatchTopic exPkg \<noteq> FortaStaking_TransferSingleTopic exPkg
     \<and> ParseTransferBatch (FortaStakingFil exContracts) exBatchLog = Inr exBatch
     \<and> length (Ids exBatch) = 3 \<and> length (Values exBatch) = 3"
    by (simp add: exPkg_def exBatchLog_def exLog_def exContracts_def exBatch_def)
  have lt3: "j < 3 \<longleftrightarrow> j = 0 \<or> j = 1 \<or> j = 2" for j :: nat by auto
  have all_ok: "\<forall>j<3. handler exListener
                  ([] @ map HandlerCall (take j [exShare 11 100, exShare 12 200, exShare 13 300]))
                  ([exShare 11 100, exShare 12 200, exShare 13 300] ! j) = None"
    by (simp add: exListener_def)
  have fails: "(1::nat) < 3
     \<and> (\<forall>i<1. handler (exListener\<lparr>handler := exFailingSink\<rparr>)
                  ([] @ map HandlerCall (take i [exShare 11 100, exShare 12 200, exShare 13 300]))
                  ([exShare 11 100, exShare 12 200, exShare 13 300] ! i) = None)
     \<and> handler (exListener\<lparr>handler := exFailingSink\<rparr>)
                  ([] @ map HandlerCall (take 1 [exShare 11 100, exShare 12 200, exShare 13 300]))
                  ([exShare 11 100, exShare 12 200, exShare 13 300] ! 1) = Some (Error ''sink'')"
    by (simp add: exFailingSink_def exShare_def)
  from TransferBatch_delivered_in_order[rule_format, OF pre, of exBlock exListener "[]"] ms all_ok
  have one: "handleFortaStakingEvent exPkg exListener exContracts exBatchLog exBlock [] =
     (Return None,
      [HandlerCall (exShare 11 100), HandlerCall (exShare 12 200), HandlerCall (exShare 13 300)])"
    by auto
  from TransferBatch_delivered_in_order[rule_format, OF pre,
         of exBlock "exListener\<lparr>handler := exFailingSink\<rparr>" "[]"] ms
  have "\<forall>j err. j < 3
                \<and> (\<forall>i<j. handler (exListener\<lparr>handler := exFailingSink\<rparr>)
                      ([] @ map HandlerCall (take i [exShare 11 100, exShare 12 200, exShare 13 300]))
                      ([exShare 11 100, exShare 12 200, exShare 13 300] ! i) = None)
                \<and> handler (exListener\<lparr>handler := exFailingSink\<rparr>)
                      ([] @ map HandlerCall (take j [exShare 11 100, exShare 12 200, exShare 13 300]))
                      ([exShare 11 100, exShare 12 200, exShare 13 300] ! j) = Some err
              \<longrightarrow> handleFortaStakingEvent exPkg (exListener\<lparr>handler := exFailingSink\<rparr>)
                    exContracts exBatchLog exBlock [] =
                  (Return (Some err),
                   [] @ map HandlerCall (take (Suc j) [exShare 11 100, exShare 12 200, exShare 13 300]))"
    by auto
  from this[rule_format, of 1 "Error ''sink''", OF fails]
  have two: "handleFortaStakingEvent exPkg (exListener\<lparr>handler := exFailingSink\<rparr>) exContracts
        exBatchLog exBlock [] =
     (Return (Some (Error ''sink'')),
      [HandlerCall (exShare 11 100), HandlerCall (exShare 12 200)])"
    by simp
  show ?thesis using one two by simp
qed

subsection \<open>What the role handlers add to the trace\<close>

text \<open>
  A role handler returns (it never panics), and the calls it makes are appended to the
  trace; none of them is a refresh of the contracts or a change of the address filter.
\<close>

lemma deliver_appends:
  "\<exists>r evs. deliver l m tr = (Return r, tr @ evs) \<and> RefreshContractsCall \<notin> set evs
      \<and> (\<forall>a. AddAddressCall a \<notin> set evs)"
  by (simp add: deliver_def)

lemma deliverAll_appends:
  "\<exists>r evs. deliverAll l ms tr = (Return r, tr @ evs) \<and> RefreshContractsCall \<notin> set evs
      \<and> (\<forall>a. AddAddressCall a \<notin> set evs)"
proof (induction ms arbitrary: tr)
  case Nil
  then show ?case by simp
next
  case (Cons m ms)
  show ?case
  proof (cases "handler l tr m")
    case None
    from Cons.IH[of "tr @ [HandlerCall m]"] obtain r evs where
      "deliverAll l ms (tr @ [HandlerCall m]) = (Return r, (tr @ [HandlerCall m]) @ evs)"
      "RefreshContractsCall \<notin> set evs" "\<forall>a. AddAddressCall a \<notin> set evs" by blast
    then have "deliverAll l (m # ms) tr = (Return r, tr @ (HandlerCall m # evs))
        \<and> RefreshContractsCall \<notin> set (HandlerCall m # evs)
        \<and> (\<forall>a. AddAddressCall a \<notin> set (HandlerCall m # evs))"
      using None by simp
    then show ?thesis by blast
  next
    case (Some err)
    then have "deliverAll l (m # ms) tr = (Return (Some err), tr @ [HandlerCall m])
        \<and> RefreshContractsCall \<notin> set [HandlerCall m]
        \<and> (\<forall>a. AddAddressCall a \<notin> set [HandlerCall m])" by simp
    then show ?thesis by blast
  qed
qed

lemma handleScannerRegistryEvent_appends:
  "\<exists>r evs. handleScannerRegistryEvent k l c le blk tr = (Return r, tr @ evs)
      \<and> RefreshContractsCall \<notin> set evs \<and> (\<forall>a. AddAddressCall a \<notin> set evs)"
  by (auto simp: handleScannerRegistryEvent_def deliver_def Let_def split: sum.splits)

lemma handleScannerPoolRegistryEvent_appends:
  "\<exists>r evs. handleScannerPoolRegistryEvent k l c le blk tr = (Return r, tr @ evs)
      \<and> RefreshContractsCall \<notin> set evs \<and> (\<forall>a. AddAddressCall a \<notin> set evs)"
  by (auto simp: handleScannerPoolRegistryEvent_def deliver_def Let_def
           split: sum.splits error.splits)

lemma handleScannerVersionEvent_appends:
  "\<exists>r evs. handleScannerVersionEvent k l c le blk tr = (Return r, tr @ evs)
      \<and> RefreshContractsCall \<notin> set evs \<and> (\<forall>a. AddAddressCall a \<notin> set evs)"
  by (auto simp: handleScannerVersionEvent_def deliver_def Let_def split: sum.splits)

lemma handleAgentRegistryEvent_appends:
  "\<exists>r evs. handleAgentRegistryEvent k l c le blk tr = (Return r, tr @ evs)
      \<and> RefreshContractsCall \<notin> set evs \<and> (\<forall>a. AddAddressCall a \<notin> set evs)"
  by (auto simp: handleAgentRegistryEvent_def deliver_def Let_def split: sum.splits)

lemma stakeBySubjectType_appends:
  "\<exists>r evs. stakeBySubjectType k l le blk st sid ct v acct tr = (Return r, tr @ evs)
      \<and> RefreshContractsCall \<notin> set evs \<and> (\<forall>a. AddAddressCall a \<notin> set evs)"
  by (auto simp: stakeBySubjectType_def deliver_def Let_def)

lemma handleFortaStakingEvent_appends:
  "\<exists>r evs. handleFortaStakingEvent k l c le blk tr = (Return r, tr @ evs)
      \<and> RefreshContractsCall \<notin> set evs \<and> (\<forall>a. AddAddressCall a \<notin> set evs)"
  unfolding handleFortaStakingEvent_def
  using stakeBySubjectType_appends deliverAll_appends deliver_appends
  by (auto split: sum.splits)

lemma handleStakeAllocatorEvent_appends:
  "\<exists>r evs. handleStakeAllocatorEvent k l c le blk tr = (Return r, tr @ evs)
      \<and> RefreshContractsCall \<notin> set evs \<and> (\<forall>a. AddAddressCall a \<notin> set evs)"
  by (auto simp: handleStakeAllocatorEvent_def deliver_def Let_def split: sum.splits)

lemma handleDispatchEvent_appends:
  "\<exists>r evs. handleDispatchEvent k l c le blk tr = (Return r, tr @ evs)
      \<and> RefreshContractsCall \<notin> set evs \<and> (\<forall>a. AddAddressCall a \<notin> set evs)"
  by (auto simp: handleDispatchEvent_def deliver_def Let_def split: sum.splits)

lemma equalsPresent_returns:
  "equalsPresent k a p = Return (case p of None \<Rightarrow> False | Some x \<Rightarrow> equalsAddress k a (Hex x))"
  by (cases p) (simp_all add: equalsPresent_def HexPtr_def)

lemma nothing_appended:
  "\<exists>r evs. (Return None, tr) = (Return r, tr @ evs)
      \<and> RefreshContractsCall \<notin> set evs \<and> (\<forall>a. AddAddressCall a \<notin> set evs)"
  by simp

lemma routeByAddress_cases:
  "routeByAddress k l c le blk tr = handleScannerRegistryEvent k l c le blk tr
   \<or> routeByAddress k l c le blk tr = handleScannerVersionEvent k l c le blk tr
   \<or> routeByAddress k l c le blk tr = handleAgentRegistryEvent k l c le blk tr
   \<or> routeByAddress k l c le blk tr = handleDispatchEvent k l c le blk tr
   \<or> routeByAddress k l c le blk tr = handleFortaStakingEvent k l c le blk tr
   \<or> routeByAddress k l c le blk tr = handleScannerPoolRegistryEvent k l c le blk tr
   \<or> routeByAddress k l c le blk tr = handleStakeAllocatorEvent k l c le blk tr
   \<or> routeByAddress k l c le blk tr = (Return None, tr)"
  by (simp add: routeByAddress_def equalsPresent_returns split: option.split bool.split)

lemma routeByAddress_appends:
  "\<exists>r evs. routeByAddress k l c le blk tr = (Return r, tr @ evs)
      \<and> RefreshContractsCall \<notin> set evs \<and> (\<forall>a. AddAddressCall a \<notin> set evs)"
  using routeByAddress_cases[of k l c le blk tr]
        handleScannerRegistryEvent_appends[of k l c le blk tr]
        handleScannerVersionEvent_appends[of k l c le blk tr]
        handleAgentRegistryEvent_appends[of k l c le blk tr]
        handleDispatchEvent_appends[of k l c le blk tr]
        handleFortaStakingEvent_appends[of k l c le blk tr]
        handleScannerPoolRegistryEvent_appends[of k l c le blk tr]
        handleStakeAllocatorEvent_appends[of k l c le blk tr]
        nothing_appended[of tr]
  by metis

subsection \<open>The address filter and construction\<close>

text \<open>The guards \<^verbatim>\<open>p != nil\<close> keep the filter from dereferencing a nil address.\<close>

lemma appendIfPresent_returns:
  "appendIfPresent flag p addrs =
     Return (if flag \<and> p \<noteq> None then addrs @ [Hex (the p)] else addrs)"
  by (cases p) (simp_all add: appendIfPresent_def HexPtr_def)

lemma filterAddrs_returns: "\<exists>addrs. filterAddrs k f rc = Return addrs"
  by (cases f) (simp_all add: filterAddrs_def appendIfPresent_returns Let_def)

lemma filterAddrs_empty_iff:
  "filterAddrs k (Some f) rc = Return [] \<longleftrightarrow>
     (\<not> ContractFilter.AgentRegistry f \<and> \<not> ContractFilter.ScannerRegistry f
      \<and> \<not> ContractFilter.FortaStaking f \<and> \<not> DispatchRegistry f \<and> \<not> ScannerVersion f
      \<and> \<not> (ContractFilter.ScannerPoolRegistry f \<and> RegistryContracts.ScannerPoolRegistry rc \<noteq> None)
      \<and> \<not> (ContractFilter.StakeAllocator f \<and> RegistryContracts.StakeAllocator rc \<noteq> None))"
  by (simp add: filterAddrs_def appendIfPresent_returns Let_def)

text \<open>
  C8. When the configured filter resolves to no address (with a filter given: no flag
  of a mandatory role is set, and every optional role whose flag is set is absent),
  \<^verbatim>\<open>NewListenerWithClients\<close> returns no listener and subscribes to nothing: once the
  log feed is created it panics with \<^verbatim>\<open>empty filter\<close>. When the filter resolves to at
  least one address, construction never fails with that panic, and with the log feed
  created it returns the listener after subscribing to every resolved address.
\<close>

theorem empty_filter_fails_construction:
  "(filterAddrs k (ContractFilter config) (Addresses (Contracts regClient tr)) = Return []
    \<longrightarrow> (\<forall>li. fst (NewListenerWithClients k c config ethClient regClient proxy tr) \<noteq> Return (Inr li))
        \<and> snd (NewListenerWithClients k c config ethClient regClient proxy tr) = tr
        \<and> ((\<forall>feed. NewLogFeed k feed = None)
           \<longrightarrow> NewListenerWithClients k c config ethClient regClient proxy tr
               = (Panic ''empty filter'', tr)))
   \<and> (filterAddrs k (ContractFilter config) (Addresses (Contracts regClient tr)) = Return addrs
      \<and> addrs \<noteq> []
    \<longrightarrow> fst (NewListenerWithClients k c config ethClient regClient proxy tr) \<noteq> Panic ''empty filter''
        \<and> ((\<forall>feed. NewLogFeed k feed = None)
           \<longrightarrow> (\<exists>li. NewListenerWithClients k c config ethClient regClient proxy tr
                      = (Return (Inr li), tr @ map AddAddressCall addrs))))
   \<and> (ContractFilter config = Some f
    \<longrightarrow> (filterAddrs k (ContractFilter config) (Addresses (Contracts regClient tr)) = Return []
         \<longleftrightarrow> \<not> ContractFilter.AgentRegistry f \<and> \<not> ContractFilter.ScannerRegistry f
            \<and> \<not> ContractFilter.FortaStaking f \<and> \<not> DispatchRegistry f \<and> \<not> ScannerVersion f
            \<and> \<not> (ContractFilter.ScannerPoolRegistry f
                 \<and> RegistryContracts.ScannerPoolRegistry (Addresses (Contracts regClient tr)) \<noteq> None)
            \<and> \<not> (ContractFilter.StakeAllocator f
                 \<and> RegistryContracts.StakeAllocator (Addresses (Contracts regClient tr)) \<noteq> None)))"
  by (auto simp: NewListenerWithClients_def setLogFilterAddrs_def Let_def filterAddrs_empty_iff
           split: option.splits)

theorem empty_filter_fails_construction_witness:
  "filterAddrs exPkg (ContractFilter (exConfig\<lparr>ContractFilter := Some exPoolOnlyFilter\<rparr>))
       (Addresses (Contracts exBareClient [])) = Return []
   \<and> NewListenerWithClients exPkg (\<lambda>tr. None) (exConfig\<lparr>ContractFilter := Some exPoolOnlyFilter\<rparr>)
        \<lparr>BlockNumber = Inr 500\<rparr> exBareClient None [] = (Panic ''empty filter'', [])
   \<and> filterAddrs exPkg (ContractFilter (exConfig\<lparr>ContractFilter := Some exPoolOnlyFilter\<rparr>))
       (Addresses (Contracts exClient [])) = Return [''0xA6'']
   \<and> NewListenerWithClients exPkg (\<lambda>tr. None) (exConfig\<lparr>ContractFilter := Some exPoolOnlyFilter\<rparr>)
        \<lparr>BlockNumber = Inr 500\<rparr> exClient None [] =
      (Return (Inr (exListener\<lparr>cfg := exConfig\<lparr>ContractFilter := Some exPoolOnlyFilter\<rparr>\<rparr>)),
       [AddAddressCall ''0xA6''])"
  using empty_filter_fails_construction[of exPkg
          "exConfig\<lparr>ContractFilter := Some exPoolOnlyFilter\<rparr>" exBareClient "[]" "\<lambda>tr. None"
          "\<lparr>BlockNumber = Inr 500\<rparr>" None "[]" exPoolOnlyFilter]
        empty_filter_fails_construction[of exPkg
          "exConfig\<lparr>ContractFilter := Some exPoolOnlyFilter\<rparr>" exClient "[]" "\<lambda>tr. None"
          "\<lparr>BlockNumber = Inr 500\<rparr>" None "[''0xA6'']" exPoolOnlyFilter]
  by (simp add: NewListenerWithClients_def setLogFilterAddrs_def filterAddrs_def
        appendIfPresent_def HexPtr_def Hex_def exPkg_def exConfig_def exBareClient_def
        exBareContracts_def exClient_def exContracts_def exAddresses_def exPoolOnlyFilter_def
        exListener_def)

subsection \<open>Routing by address\<close>

lemma setLogFilterAddrs_no_nil_dereference:
  "fst (setLogFilterAddrs k l tr) \<noteq> Panic nilDereference"
  using filterAddrs_returns[of k "ContractFilter (cfg l)" "Addresses (Contracts (client l) tr)"]
  by (auto simp: setLogFilterAddrs_def nilDereference_def split: if_splits)

lemma handleUpgradeEvent_no_nil_dereference:
  "fst (handleUpgradeEvent k l c le blk tr) \<noteq> Panic nilDereference"
  using setLogFilterAddrs_no_nil_dereference[of k l "tr @ [RefreshContractsCall]"]
  by (auto simp: handleUpgradeEvent_def deliver_def split: option.splits prod.splits result.splits sum.splits)

text \<open>
  C9. Routing a log never panics, and handling a log never dereferences a nil
  address. The comparison with an absent role is false without the address being
  read, so a log that matches none of the five mandatory roles goes to the stake
  allocator's handler or to nobody when the scanner pool registry is absent, and to the
  scanner pool registry's handler or to nobody when the stake allocator is absent. Only
  these two roles can be absent: the other five addresses are values.
\<close>

theorem absent_roles_skipped:
  "(\<exists>r. fst (routeByAddress k l c le blk tr) = Return r)
   \<and> fst (handleLog k l blk le tr) \<noteq> Panic nilDereference
   \<and> equalsPresent k (Address le) None = Return False
   \<and> (\<not> equalsAddress k (Address le) (Hex (RegistryContracts.ScannerRegistry (Addresses c)))
      \<and> \<not> equalsAddress k (Address le) (Hex (ScannerNodeVersion (Addresses c)))
      \<and> \<not> equalsAddress k (Address le) (Hex (RegistryContracts.AgentRegistry (Addresses c)))
      \<and> \<not> equalsAddress k (Address le) (Hex (Dispatch (Addresses c)))
      \<and> \<not> equalsAddress k (Address le) (Hex (RegistryContracts.FortaStaking (Addresses c)))
    \<longrightarrow> (RegistryContracts.ScannerPoolRegistry (Addresses c) = None
         \<longrightarrow> routeByAddress k l c le blk tr =
             (case RegistryContracts.StakeAllocator (Addresses c) of
                None \<Rightarrow> (Return None, tr)
              | Some a \<Rightarrow> if equalsAddress k (Address le) (Hex a)
                          then handleStakeAllocatorEvent k l c le blk tr else (Return None, tr)))
       \<and> (RegistryContracts.StakeAllocator (Addresses c) = None
         \<longrightarrow> routeByAddress k l c le blk tr =
             (case RegistryContracts.ScannerPoolRegistry (Addresses c) of
                None \<Rightarrow> (Return None, tr)
              | Some p \<Rightarrow> if equalsAddress k (Address le) (Hex p)
                          then handleScannerPoolRegistryEvent k l c le blk tr
                          else (Return None, tr))))"
proof (intro conjI)
  show "\<exists>r. fst (routeByAddress k l c le blk tr) = Return r"
    using routeByAddress_appends[of k l c le blk tr] by auto
  show "fst (handleLog k l blk le tr) \<noteq> Panic nilDereference"
  proof (cases "ctx l tr")
    case None
    obtain r tr' where u: "handleUpgradeEvent k l (Contracts (client l) tr) le blk tr = (r, tr')"
      by (cases "handleUpgradeEvent k l (Contracts (client l) tr) le blk tr")
    have r: "r \<noteq> Panic nilDereference"
      using handleUpgradeEvent_no_nil_dereference[of k l "Contracts (client l) tr" le blk tr] u by simp
    obtain r2 evs where "routeByAddress k l (Contracts (client l) tr) le blk tr' = (Return r2, tr' @ evs)"
      using routeByAddress_appends[of k l "Contracts (client l) tr" le blk tr'] by blast
    then show ?thesis using None u r
      by (auto simp: handleLog_def Let_def split: result.splits option.splits)
  next
    case (Some e)
    then show ?thesis by (simp add: handleLog_def)
  qed
  show "equalsPresent k (Address le) None = Return False"
    by (simp add: equalsPresent_def)
  show "\<not> equalsAddress k (Address le) (Hex (RegistryContracts.ScannerRegistry (Addresses c)))
      \<and> \<not> equalsAddress k (Address le) (Hex (ScannerNodeVersion (Addresses c)))
      \<and> \<not> equalsAddress k (Address le) (Hex (RegistryContracts.AgentRegistry (Addresses c)))
      \<and> \<not> equalsAddress k (Address le) (Hex (Dispatch (Addresses c)))
      \<and> \<not> equalsAddress k (Address le) (Hex (RegistryContracts.FortaStaking (Addresses c)))
    \<longrightarrow> (RegistryContracts.ScannerPoolRegistry (Addresses c) = None
         \<longrightarrow> routeByAddress k l c le blk tr =
             (case RegistryContracts.StakeAllocator (Addresses c) of
                None \<Rightarrow> (Return None, tr)
              | Some a \<Rightarrow> if equalsAddress k (Address le) (Hex a)
                          then handleStakeAllocatorEvent k l c le blk tr else (Return None, tr)))
       \<and> (RegistryContracts.StakeAllocator (Addresses c) = None
         \<longrightarrow> routeByAddress k l c le blk tr =
             (case RegistryContracts.ScannerPoolRegistry (Addresses c) of
                None \<Rightarrow> (Return None, tr)
              | Some p \<Rightarrow> if equalsAddress k (Address le) (Hex p)
                          then handleScannerPoolRegistryEvent k l c le blk tr
                          else (Return None, tr)))"
    by (simp add: routeByAddress_def equalsPresent_returns split: option.split)
qed

theorem absent_roles_skipped_witness:
  "RegistryContracts.ScannerPoolRegistry (Addresses exBareContracts) = None
   \<and> RegistryContracts.StakeAllocator (Addresses exBareContracts) = None
   \<and> routeByAddress exPkg exListener exBareContracts
        (exLog ''0xA6'' ''scanner_pool_registry.Transfer'' [1]) exBlock [] = (Return None, [])
   \<and> routeByAddress exPkg exListener exContracts
        (exLog ''0xA6'' ''scanner_pool_registry.Transfer'' [1]) exBlock [] =
      (Return None, [HandlerCall (NewScannerPoolMessageFromTransfer (exTransfer ''0xB1'') exBlock)])"
  using absent_roles_skipped[of exPkg exListener exBareContracts
          "exLog ''0xA6'' ''scanner_pool_registry.Transfer'' [1]" exBlock "[]"]
  by (simp add: routeByAddress_def equalsPresent_def HexPtr_def Hex_def
        handleScannerPoolRegistryEvent_def deliver_def
        exPkg_def exBareContracts_def exContracts_def exAddresses_def exLog_def exListener_def
        exTransfer_def ZeroAddress_def)

subsection \<open>Upgrade events\<close>



lemma handleLog_not_upgraded:
  "ctx l tr = None \<Longrightarrow> getTopic k le \<noteq> UpgradedTopic \<Longrightarrow>
   handleLog k l blk le tr = routeByAddress k l (Contracts (client l) tr) le blk tr"
  by (simp add: handleLog_def handleUpgradeEvent_def)

lemma handleLog_upgraded:
  assumes "getTopic k le = UpgradedTopic" "ctx l tr = None"
  shows "handleLog k l blk le tr =
    (case RefreshContracts (client l) tr of
       Some err \<Rightarrow> (Return (Some err), tr @ [RefreshContractsCall])
     | None \<Rightarrow>
        (case filterAddrs k (ContractFilter (cfg l))
                (Addresses (Contracts (client l) (tr @ [RefreshContractsCall]))) of
           Panic s \<Rightarrow> (Panic s, tr @ [RefreshContractsCall])
         | Return addrs \<Rightarrow>
             if addrs = [] then (Panic ''empty filter'', tr @ [RefreshContractsCall])
             else
               (case ParseUpgraded (DispatchFil (Contracts (client l) tr)) le of
                  Inl err \<Rightarrow>
                    (Return (Some err), tr @ RefreshContractsCall # map AddAddressCall addrs)
                | Inr u \<Rightarrow>
                    (case handler l (tr @ RefreshContractsCall # map AddAddressCall addrs)
                            (NewUpgradeMessage u le blk) of
                       Some err \<Rightarrow>
                         (Return (Some err),
                          tr @ RefreshContractsCall # map AddAddressCall addrs
                             @ [HandlerCall (NewUpgradeMessage u le blk)])
                     | None \<Rightarrow>
                         routeByAddress k l (Contracts (client l) tr) le blk
                           (tr @ RefreshContractsCall # map AddAddressCall addrs
                               @ [HandlerCall (NewUpgradeMessage u le blk)])))))"
  using assms
  by (simp add: handleLog_def handleUpgradeEvent_def setLogFilterAddrs_def deliver_def Let_def
           split: option.split result.split sum.split)

lemmas ex_defs =
  exPkg_def exListener_def exClient_def exContracts_def exAddresses_def exConfig_def
  exLog_def exUpgradeLog_def exUpgradeTrace_def

lemmas run_defs =
  handleLog_def handleUpgradeEvent_def setLogFilterAddrs_def filterAddrs_def
  routeByAddress_def equalsPresent_def HexPtr_def Hex_def handleFortaStakingEvent_def
  deliver_def UpgradedTopic_def



text \<open>
  C3, as amended. Routing by address takes place whenever the upgrade check returns
  no error: for a log whose topic is not the upgrade topic, and also for a log with the
  upgrade topic once the refresh, the recomputation of the filter, the decoding and the
  delivery of the upgrade message have succeeded. It is skipped only when the context is
  cancelled or when the upgrade handling returns an error or panics.
\<close>

theorem routing_follows_upgrade_check:
  "(ctx l tr = None \<and> getTopic k le \<noteq> UpgradedTopic
    \<longrightarrow> handleLog k l blk le tr = routeByAddress k l (Contracts (client l) tr) le blk tr)
   \<and> (ctx l tr = None \<and> getTopic k le = UpgradedTopic
      \<and> RefreshContracts (client l) tr = None
      \<and> filterAddrs k (ContractFilter (cfg l))
           (Addresses (Contracts (client l) (tr @ [RefreshContractsCall]))) = Return addrs
      \<and> addrs \<noteq> []
      \<and> ParseUpgraded (DispatchFil (Contracts (client l) tr)) le = Inr u
      \<and> handler l (tr @ RefreshContractsCall # map AddAddressCall addrs)
           (NewUpgradeMessage u le blk) = None
    \<longrightarrow> handleLog k l blk le tr =
          routeByAddress k l (Contracts (client l) tr) le blk
            (tr @ RefreshContractsCall # map AddAddressCall addrs
                @ [HandlerCall (NewUpgradeMessage u le blk)]))
   \<and> (ctx l tr = None
      \<and> handleUpgradeEvent k l (Contracts (client l) tr) le blk tr = (r, tr') \<and> r \<noteq> Return None
    \<longrightarrow> handleLog k l blk le tr = (r, tr'))
   \<and> (ctx l tr = Some err \<longrightarrow> handleLog k l blk le tr = (Return (Some err), tr))"
proof (intro conjI impI)
  assume "ctx l tr = None \<and> getTopic k le \<noteq> UpgradedTopic"
  then show "handleLog k l blk le tr = routeByAddress k l (Contracts (client l) tr) le blk tr"
    by (simp add: handleLog_not_upgraded)
next
  assume a: "ctx l tr = None \<and> getTopic k le = UpgradedTopic
      \<and> RefreshContracts (client l) tr = None
      \<and> filterAddrs k (ContractFilter (cfg l))
           (Addresses (Contracts (client l) (tr @ [RefreshContractsCall]))) = Return addrs
      \<and> addrs \<noteq> []
      \<and> ParseUpgraded (DispatchFil (Contracts (client l) tr)) le = Inr u
      \<and> handler l (tr @ RefreshContractsCall # map AddAddressCall addrs)
           (NewUpgradeMessage u le blk) = None"
  then have "getTopic k le = UpgradedTopic" "ctx l tr = None" by auto
  from handleLog_upgraded[OF this, of blk] a
  show "handleLog k l blk le tr =
          routeByAddress k l (Contracts (client l) tr) le blk
            (tr @ RefreshContractsCall # map AddAddressCall addrs
                @ [HandlerCall (NewUpgradeMessage u le blk)])"
    by simp
next
  assume "ctx l tr = None
      \<and> handleUpgradeEvent k l (Contracts (client l) tr) le blk tr = (r, tr') \<and> r \<noteq> Return None"
  then show "handleLog k l blk le tr = (r, tr')"
    by (cases r) (auto simp: handleLog_def Let_def split: option.splits)
next
  assume "ctx l tr = Some err"
  then show "handleLog k l blk le tr = (Return (Some err), tr)"
    by (simp add: handleLog_def)
qed

theorem routing_follows_upgrade_check_witness:
  "handleLog exPkg exListener exBlock exUpgradeLog [] =
     routeByAddress exPkg exListener exContracts exUpgradeLog exBlock exUpgradeTrace
   \<and> handleLog exPkg exListener exBlock (exLog ''0xA4'' ''forta_staking.StakeDeposited'' [2]) [] =
     routeByAddress exPkg exListener exContracts
       (exLog ''0xA4'' ''forta_staking.StakeDeposited'' [2]) exBlock []
   \<and> handleLog exPkg (exListener\<lparr>ctx := (\<lambda>tr. Some (Error ''context canceled''))\<rparr>) exBlock
       exUpgradeLog [] = (Return (Some (Error ''context canceled'')), [])
   \<and> handleLog exPkg
       (exListener\<lparr>client := exClient\<lparr>RefreshContracts := (\<lambda>tr. Some (Error ''refresh''))\<rparr>\<rparr>)
       exBlock exUpgradeLog [] = (Return (Some (Error ''refresh'')), [RefreshContractsCall])"
  using routing_follows_upgrade_check[of exListener "[]" exPkg exUpgradeLog exBlock
          "[''0xA1'', ''0xA2'', ''0xA3'', ''0xA4'', ''0xA5'', ''0xA6'', ''0xA7'']" "Decoded []"]
        routing_follows_upgrade_check[of exListener "[]" exPkg
          "exLog ''0xA4'' ''forta_staking.StakeDeposited'' [2]" exBlock]
        routing_follows_upgrade_check[of
          "exListener\<lparr>ctx := (\<lambda>tr. Some (Error ''context canceled''))\<rparr>" "[]" exPkg exUpgradeLog
          exBlock _ _ _ _ "Error ''context canceled''"]
        routing_follows_upgrade_check[of
          "exListener\<lparr>client := exClient\<lparr>RefreshContracts := (\<lambda>tr. Some (Error ''refresh''))\<rparr>\<rparr>"
          "[]" exPkg exUpgradeLog exBlock _ _ "Return (Some (Error ''refresh''))"
          "[RefreshContractsCall]"]
  by (simp add: ex_defs run_defs)

text \<open>
  C3, as stated, fails: the log below has the upgrade topic and comes from the staking
  contract's address. Its upgrade handling succeeds, and the log is then routed to the
  staking role, whose handler finds no case for the topic and logs that it ignores it.
\<close>

theorem routing_after_upgrade_counterexample:
  "getTopic exPkg exUpgradeLog = UpgradedTopic
   \<and> handleUpgradeEvent exPkg exListener exContracts exUpgradeLog exBlock [] =
      (Return None, exUpgradeTrace)
   \<and> equalsAddress exPkg (Address exUpgradeLog)
        (Hex (RegistryContracts.FortaStaking (Addresses exContracts)))
   \<and> handleFortaStakingEvent exPkg exListener exContracts exUpgradeLog exBlock exUpgradeTrace =
      (Return None, exUpgradeTrace @ [LoggerDebug ''unhandled topic, ignoring''])
   \<and> handleLog exPkg exListener exBlock exUpgradeLog [] =
      (Return None, exUpgradeTrace @ [LoggerDebug ''unhandled topic, ignoring''])
   \<and> handleLog exPkg exListener exBlock exUpgradeLog [] \<noteq>
      handleUpgradeEvent exPkg exListener exContracts exUpgradeLog exBlock []"
  by (simp add: ex_defs run_defs)

end
